theory Spec2Isabelle
  imports Complex_Main
begin

section \<open>Python values as decoded from JSON\<close>

text \<open>
  Every value the monitor handles comes out of \<^verbatim>\<open>response.json()\<close> or
  \<^verbatim>\<open>json.load\<close>: a Python \<^verbatim>\<open>None\<close>, bool, int, float, str, list or dict with string
  keys. Floats are idealised as reals (no rounding, no NaN). A dict is an association
  list read with \<open>map_of\<close>.
\<close>

datatype json =
    JNull
  | JBool bool
  | JInt int
  | JFloat real
  | JStr string
  | JArr "json list"
  | JObj "(string \<times> json) list"

text \<open>The exceptions the source can raise and catch.\<close>

datatype error =
    KeyError string
  | TypeError
  | AttributeError
  | RequestException
  | HTTPError nat
  | JSONDecodeError
  | OverflowError

text \<open>Python truthiness, as used by \<^verbatim>\<open>if x\<close>, \<^verbatim>\<open>x and y\<close>.\<close>

fun truthy :: "json \<Rightarrow> bool" where
  "truthy JNull = False"
| "truthy (JBool b) = b"
| "truthy (JInt i) = (i \<noteq> 0)"
| "truthy (JFloat r) = (r \<noteq> 0)"
| "truthy (JStr s) = (s \<noteq> [])"
| "truthy (JArr xs) = (xs \<noteq> [])"
| "truthy (JObj kv) = (kv \<noteq> [])"

text \<open>\<^verbatim>\<open>d[k]\<close>: a KeyError on a dict without the key, a TypeError on anything else
  (a string key never indexes a list, a str or a scalar).\<close>

fun getitem :: "json \<Rightarrow> string \<Rightarrow> error + json" where
  "getitem (JObj kv) k = (case map_of kv k of None \<Rightarrow> Inl (KeyError k) | Some v \<Rightarrow> Inr v)"
| "getitem _ k = Inl TypeError"

text \<open>\<^verbatim>\<open>d.get(k, default)\<close>: only a dict has the method.\<close>

fun dict_get :: "json \<Rightarrow> string \<Rightarrow> json \<Rightarrow> error + json" where
  "dict_get (JObj kv) k d = Inr (case map_of kv k of None \<Rightarrow> d | Some v \<Rightarrow> v)"
| "dict_get _ k d = Inl AttributeError"

text \<open>\<^verbatim>\<open>for x in v\<close>: the elements of a list, the keys of a dict, the characters of a
  str; a scalar is not iterable.\<close>

fun iter :: "json \<Rightarrow> error + json list" where
  "iter (JArr xs) = Inr xs"
| "iter (JObj kv) = Inr (map JStr (remdups (map fst kv)))"
| "iter (JStr s) = Inr (map (\<lambda>c. JStr [c]) s)"
| "iter _ = Inl TypeError"

text \<open>
  Members of a Python set are compared by hash and \<^verbatim>\<open>==\<close>: the numbers \<^verbatim>\<open>1\<close>,
  \<^verbatim>\<open>1.0\<close> and \<^verbatim>\<open>True\<close> are one member, a list or a dict is unhashable.
\<close>

datatype key = KNone | KNum real | KStr string

fun hash_key :: "json \<Rightarrow> error + key" where
  "hash_key JNull = Inr KNone"
| "hash_key (JBool b) = Inr (KNum (if b then 1 else 0))"
| "hash_key (JInt i) = Inr (KNum (of_int i))"
| "hash_key (JFloat r) = Inr (KNum r)"
| "hash_key (JStr s) = Inr (KStr s)"
| "hash_key (JArr xs) = Inl TypeError"
| "hash_key (JObj kv) = Inl TypeError"

section \<open>Diff engine: \<^verbatim>\<open>find_new_organizations\<close>\<close>

text \<open>\<^verbatim>\<open>org['id']\<close> as a set member.\<close>

definition id_key :: "json \<Rightarrow> error + key" where
  "id_key org = (case getitem org ''id'' of Inl e \<Rightarrow> Inl e | Inr i \<Rightarrow> hash_key i)"

text \<open>\<^verbatim>\<open>{org['id'] for org in previous_orgs}\<close>, stopping at the first exception.\<close>

fun previous_ids :: "json list \<Rightarrow> error + key list" where
  "previous_ids [] = Inr []"
| "previous_ids (org # orgs) =
     (case id_key org of
        Inl e \<Rightarrow> Inl e
      | Inr k \<Rightarrow> (case previous_ids orgs of Inl e \<Rightarrow> Inl e | Inr ks \<Rightarrow> Inr (k # ks)))"

text \<open>\<^verbatim>\<open>[org for org in current_orgs if org['id'] not in previous_ids]\<close>.\<close>

fun select_new :: "key list \<Rightarrow> json list \<Rightarrow> error + json list" where
  "select_new ids [] = Inr []"
| "select_new ids (org # orgs) =
     (case id_key org of
        Inl e \<Rightarrow> Inl e
      | Inr k \<Rightarrow>
          (case select_new ids orgs of
             Inl e \<Rightarrow> Inl e
           | Inr r \<Rightarrow> Inr (if k \<in> set ids then r else org # r)))"

definition find_new_organizations :: "json \<Rightarrow> json \<Rightarrow> error + json list" where
  "find_new_organizations current_orgs previous_orgs =
     (case iter previous_orgs of
        Inl e \<Rightarrow> Inl e
      | Inr prev \<Rightarrow>
          (case previous_ids prev of
             Inl e \<Rightarrow> Inl e
           | Inr ids \<Rightarrow>
               (case iter current_orgs of
                  Inl e \<Rightarrow> Inl e
                | Inr cur \<Rightarrow> select_new ids cur)))"

text \<open>An organization record with a usable \<^verbatim>\<open>id\<close> field.\<close>

definition has_id :: "json \<Rightarrow> bool" where
  "has_id org = (case id_key org of Inl e \<Rightarrow> False | Inr k \<Rightarrow> True)"

definition the_id :: "json \<Rightarrow> key" where
  "the_id org = (case id_key org of Inl e \<Rightarrow> KNone | Inr k \<Rightarrow> k)"

section \<open>The environment and the process state\<close>

text \<open>
  The HTTP calls the monitor makes, with the parts of each that vary: the bearer token
  (a Python value: \<^verbatim>\<open>None\<close> after a failed exchange), the organization id, the
  GitHub id, the webhook URL and the message text. The Auth0 domain and the client
  credentials are fixed configuration and are left out.
\<close>

datatype request =
    TokenPost
  | OrganizationsGet json
  | MembersGet json json
  | GithubUserGet string
  | SlackPost string string

text \<open>What \<^verbatim>\<open>requests\<close> gives back: an exception of the transport, or a status with a
  body; the body is \<open>None\<close> when \<^verbatim>\<open>response.json()\<close> would raise.\<close>

datatype response = ConnectionError | Reply nat "json option"

text \<open>The lines the source prints in its \<^verbatim>\<open>except\<close> branches and warnings; the
  informational prints are left out.\<close>

datatype log =
    TokenError error
  | SlackWarning
  | SlackError error
  | GithubError error
  | MembersStatus nat
  | MembersError error
  | DetailsError error
  | CycleError error

text \<open>
  Everything outside the process: the reply to the \<open>n\<close>-th HTTP call, the \<open>n\<close>-th reading
  of the wall clock, the library functions \<^verbatim>\<open>strftime\<close>, \<^verbatim>\<open>str\<close> (on values that are
  not already a str), \<^verbatim>\<open>json.dumps\<close> and \<^verbatim>\<open>json.loads\<close>, and the webhook URL of the
  process environment.
\<close>

record env =
  http :: "nat \<Rightarrow> request \<Rightarrow> response"
  clock :: "nat \<Rightarrow> real"
  strftime :: "real \<Rightarrow> string"
  str_of :: "json \<Rightarrow> string"
  json_dumps :: "json \<Rightarrow> string"
  json_loads :: "string \<Rightarrow> json option"
  SLACK_WEBHOOK_URL :: "string option"

text \<open>
  The state the source mutates: the two globals of the token cache, the snapshot file
  (\<open>None\<close> while it does not exist), and, to observe effects, the HTTP calls made so
  far, the number of clock readings, the sleeps in seconds and the printed errors.
\<close>

record world =
  cached_token :: json
  token_expiry :: "real option"
  previous_orgs_file :: "string option"
  sent :: "request list"
  clock_reads :: nat
  slept :: "nat list"
  printed :: "log list"

definition request_op :: "env \<Rightarrow> request \<Rightarrow> world \<Rightarrow> response \<times> world" where
  "request_op E r w = (http E (length (sent w)) r, w\<lparr>sent := sent w @ [r]\<rparr>)"

definition now_timestamp :: "env \<Rightarrow> world \<Rightarrow> real \<times> world" where
  "now_timestamp E w = (clock E (clock_reads w), w\<lparr>clock_reads := Suc (clock_reads w)\<rparr>)"

definition print_log :: "log \<Rightarrow> world \<Rightarrow> world" where
  "print_log l w = w\<lparr>printed := printed w @ [l]\<rparr>"

definition sleep :: "nat \<Rightarrow> world \<Rightarrow> world" where
  "sleep n w = w\<lparr>slept := slept w @ [n]\<rparr>"

text \<open>\<^verbatim>\<open>response.raise_for_status()\<close> raises on a 4xx or 5xx status.\<close>

definition raises_for_status :: "nat \<Rightarrow> bool" where
  "raises_for_status st = (400 \<le> st \<and> st < 600)"

section \<open>Token cache: \<^verbatim>\<open>get_auth0_token\<close>\<close>

text \<open>Python converts an int to a float before it multiplies it by one; the conversion
  raises OverflowError when the int rounds to a value beyond the largest float, that
  is from \<open>2\<^sup>1\<^sup>0\<^sup>2\<^sup>4 - 2\<^sup>9\<^sup>7\<^sup>0\<close> on.\<close>

definition fits_float :: "int \<Rightarrow> bool" where
  "fits_float i = (\<bar>i\<bar> < 2 ^ 1024 - 2 ^ 970)"

text \<open>\<^verbatim>\<open>x * 0.9\<close>: defined on numbers (a bool is an int) within float range, an
  OverflowError on a larger int, a TypeError on any other value.\<close>

fun times_0_9 :: "json \<Rightarrow> error + real" where
  "times_0_9 (JBool b) = Inr ((if b then 1 else 0) * 0.9)"
| "times_0_9 (JInt i) = (if fits_float i then Inr (of_int i * 0.9) else Inl OverflowError)"
| "times_0_9 (JFloat r) = Inr (r * 0.9)"
| "times_0_9 _ = Inl TypeError"

text \<open>
  The \<^verbatim>\<open>try\<close> block of lines 37 to 52. Every exception ends in the handler, which prints
  and falls off the end of the function: the call returns \<^verbatim>\<open>None\<close>. Line 47 assigns
  \<^verbatim>\<open>cached_token\<close> before line 48 reads the clock and multiplies.
\<close>

definition exchange_token :: "env \<Rightarrow> world \<Rightarrow> json \<times> world" where
  "exchange_token E w =
     (let (resp, w1) = request_op E TokenPost w in
      case resp of
        ConnectionError \<Rightarrow> (JNull, print_log (TokenError RequestException) w1)
      | Reply st body \<Rightarrow>
          if raises_for_status st then (JNull, print_log (TokenError (HTTPError st)) w1)
          else
            (case body of
               None \<Rightarrow> (JNull, print_log (TokenError JSONDecodeError) w1)
             | Some token_data \<Rightarrow>
                 (case getitem token_data ''access_token'' of
                    Inl e \<Rightarrow> (JNull, print_log (TokenError e) w1)
                  | Inr tok \<Rightarrow>
                      (let w2 = w1\<lparr>cached_token := tok\<rparr>;
                           (t, w3) = now_timestamp E w2
                       in case dict_get token_data ''expires_in'' (JInt 3600) of
                            Inl e \<Rightarrow> (JNull, print_log (TokenError e) w3)
                          | Inr ttl \<Rightarrow>
                              (case times_0_9 ttl of
                                 Inl e \<Rightarrow> (JNull, print_log (TokenError e) w3)
                               | Inr d \<Rightarrow> (tok, w3\<lparr>token_expiry := Some (t + d)\<rparr>))))))"

text \<open>Line 34: \<^verbatim>\<open>cached_token and token_expiry and now < token_expiry\<close>; the clock is
  read only when both globals are truthy.\<close>

definition get_auth0_token :: "env \<Rightarrow> world \<Rightarrow> json \<times> world" where
  "get_auth0_token E w =
     (case token_expiry w of
        None \<Rightarrow> exchange_token E w
      | Some expiry \<Rightarrow>
          if truthy (cached_token w) \<and> expiry \<noteq> 0 then
            (let (t, w1) = now_timestamp E w
             in if t < expiry then (cached_token w, w1) else exchange_token E w1)
          else exchange_token E w)"

section \<open>Notifier delivery, snapshot file, organization listing\<close>

text \<open>Lines 55 to 69: without a webhook URL the message is dropped with a warning; an
  exception of the transport or an error status is printed, never raised.\<close>

definition send_slack_message :: "env \<Rightarrow> string \<Rightarrow> world \<Rightarrow> world" where
  "send_slack_message E message w =
     (case SLACK_WEBHOOK_URL E of
        None \<Rightarrow> print_log SlackWarning w
      | Some url \<Rightarrow>
          if url = [] then print_log SlackWarning w
          else
            (let (resp, w1) = request_op E (SlackPost url message) w in
             case resp of
               ConnectionError \<Rightarrow> print_log (SlackError RequestException) w1
             | Reply st body \<Rightarrow>
                 if raises_for_status st then print_log (SlackError (HTTPError st)) w1
                 else w1))"

text \<open>
  Lines 71 to 81. The file holds text; \<^verbatim>\<open>json.load\<close> raises on text that is not JSON,
  and a missing file reads as the empty list. Opening, reading and writing the file are
  taken to succeed.
\<close>

definition load_previous_orgs :: "env \<Rightarrow> world \<Rightarrow> error + json" where
  "load_previous_orgs E w =
     (case previous_orgs_file w of
        None \<Rightarrow> Inr (JArr [])
      | Some txt \<Rightarrow>
          (case json_loads E txt of None \<Rightarrow> Inl JSONDecodeError | Some v \<Rightarrow> Inr v))"

definition save_previous_orgs :: "env \<Rightarrow> json \<Rightarrow> world \<Rightarrow> world" where
  "save_previous_orgs E orgs w = w\<lparr>previous_orgs_file := Some (json_dumps E orgs)\<rparr>"

text \<open>Lines 83 to 96: the token is fetched first, then the listing; a transport error,
  an error status and an undecodable body raise.\<close>

definition get_organizations :: "env \<Rightarrow> world \<Rightarrow> (error + json) \<times> world" where
  "get_organizations E w =
     (let (token, w1) = get_auth0_token E w;
          (resp, w2) = request_op E (OrganizationsGet token) w1
      in case resp of
           ConnectionError \<Rightarrow> (Inl RequestException, w2)
         | Reply st body \<Rightarrow>
             if raises_for_status st then (Inl (HTTPError st), w2)
             else (case body of None \<Rightarrow> (Inl JSONDecodeError, w2) | Some v \<Rightarrow> (Inr v, w2)))"

section \<open>Member enricher\<close>

text \<open>Substring test of \<^verbatim>\<open>sub in s\<close> and \<^verbatim>\<open>s.split(sep)\<close> for a one-character
  separator.\<close>

fun starts_with :: "string \<Rightarrow> string \<Rightarrow> bool" where
  "starts_with [] s = True"
| "starts_with (p # ps) [] = False"
| "starts_with (p # ps) (c # cs) = (p = c \<and> starts_with ps cs)"

fun str_contains :: "string \<Rightarrow> string \<Rightarrow> bool" where
  "str_contains sub [] = (sub = [])"
| "str_contains sub (c # cs) = (starts_with sub (c # cs) \<or> str_contains sub cs)"

fun split_on :: "char \<Rightarrow> string \<Rightarrow> string list" where
  "split_on sep [] = [[]]"
| "split_on sep (c # cs) =
     (case split_on sep cs of
        [] \<Rightarrow> [[c]]
      | h # t \<Rightarrow> if c = sep then [] # h # t else (c # h) # t)"

text \<open>\<^verbatim>\<open>'github' in user_id\<close>: a substring of a str, an element of a list, a key of a
  dict; a TypeError on a value that is not a container.\<close>

fun contains_github :: "json \<Rightarrow> error + bool" where
  "contains_github (JStr s) = Inr (str_contains ''github'' s)"
| "contains_github (JArr xs) = Inr (JStr ''github'' \<in> set xs)"
| "contains_github (JObj kv) = Inr (''github'' \<in> set (map fst kv))"
| "contains_github _ = Inl TypeError"

text \<open>Line 126: \<^verbatim>\<open>user_id.split('|')[-1] if 'github' in user_id else None\<close>; only a str
  has \<^verbatim>\<open>split\<close>.\<close>

definition github_id_of :: "json \<Rightarrow> error + string option" where
  "github_id_of user_id =
     (case contains_github user_id of
        Inl e \<Rightarrow> Inl e
      | Inr found \<Rightarrow>
          if found then
            (case user_id of
               JStr s \<Rightarrow> Inr (Some (last (split_on CHR ''|'' s)))
             | _ \<Rightarrow> Inl AttributeError)
          else Inr None)"

text \<open>Lines 98 to 107; the result is the decoded body or \<^verbatim>\<open>None\<close>.\<close>

definition get_github_user_info :: "env \<Rightarrow> string \<Rightarrow> world \<Rightarrow> json \<times> world" where
  "get_github_user_info E github_id w =
     (let (resp, w1) = request_op E (GithubUserGet github_id) w in
      case resp of
        ConnectionError \<Rightarrow> (JNull, print_log (GithubError RequestException) w1)
      | Reply st body \<Rightarrow>
          if st = 200 then
            (case body of
               None \<Rightarrow> (JNull, print_log (GithubError JSONDecodeError) w1)
             | Some v \<Rightarrow> (v, w1))
          else (JNull, w1))"

text \<open>The body of the loop of lines 123 to 137, for one member.\<close>

definition member_detail :: "env \<Rightarrow> json \<Rightarrow> world \<Rightarrow> (error + json) \<times> world" where
  "member_detail E member w =
     (case dict_get member ''user_id'' (JStr []) of
        Inl e \<Rightarrow> (Inl e, w)
      | Inr user_id \<Rightarrow>
          (case github_id_of user_id of
             Inl e \<Rightarrow> (Inl e, w)
           | Inr github_id \<Rightarrow>
               (let (github_info, w1) =
                      (case github_id of
                         None \<Rightarrow> (JNull, w)
                       | Some g \<Rightarrow> if g \<noteq> [] then get_github_user_info E g w else (JNull, w))
                in case dict_get member ''name'' (JStr ''Unknown'') of
                     Inl e \<Rightarrow> (Inl e, w1)
                   | Inr name \<Rightarrow>
                       (case dict_get member ''email'' (JStr ''No email'') of
                          Inl e \<Rightarrow> (Inl e, w1)
                        | Inr email \<Rightarrow>
                            (case (if truthy github_info
                                   then dict_get github_info ''html_url'' JNull
                                   else Inr JNull) of
                               Inl e \<Rightarrow> (Inl e, w1)
                             | Inr url \<Rightarrow>
                                 (Inr (JObj [(''name'', name), (''email'', email),
                                             (''github_url'', url)]), w1))))))"

fun member_details :: "env \<Rightarrow> json list \<Rightarrow> json list \<Rightarrow> world \<Rightarrow> (error + json list) \<times> world" where
  "member_details E [] acc w = (Inr acc, w)"
| "member_details E (member # members) acc w =
     (case member_detail E member w of
        (Inl e, w1) \<Rightarrow> (Inl e, w1)
      | (Inr d, w1) \<Rightarrow> member_details E members (acc @ [d]) w1)"

text \<open>Lines 109 to 145: every exception inside the \<^verbatim>\<open>try\<close> ends in \<^verbatim>\<open>return []\<close>.\<close>

definition get_organization_members :: "env \<Rightarrow> json \<Rightarrow> json \<Rightarrow> world \<Rightarrow> json list \<times> world" where
  "get_organization_members E org_id token w =
     (let (resp, w1) = request_op E (MembersGet org_id token) w in
      case resp of
        ConnectionError \<Rightarrow> ([], print_log (MembersError RequestException) w1)
      | Reply st body \<Rightarrow>
          if st = 200 then
            (case body of
               None \<Rightarrow> ([], print_log (MembersError JSONDecodeError) w1)
             | Some members \<Rightarrow>
                 (case iter members of
                    Inl e \<Rightarrow> ([], print_log (MembersError e) w1)
                  | Inr ms \<Rightarrow>
                      (case member_details E ms [] w1 of
                         (Inl e, w2) \<Rightarrow> ([], print_log (MembersError e) w2)
                       | (Inr ds, w2) \<Rightarrow> (ds, w2))))
          else ([], print_log (MembersStatus st) w1))"

section \<open>Notifier: \<^verbatim>\<open>format_slack_message\<close> and \<^verbatim>\<open>print_organization_details\<close>\<close>

text \<open>An f-string field: a str is inserted as it is, any other value through
  \<^verbatim>\<open>str\<close>.\<close>

definition fmt :: "env \<Rightarrow> json \<Rightarrow> string" where
  "fmt E v = (case v of JStr s \<Rightarrow> s | _ \<Rightarrow> str_of E v)"

text \<open>The two characters of the source outside ASCII, in UTF-8: the party popper of
  the header and the bullet of a member line.\<close>

definition header :: string where
  "header = ''*New Organization Found!* '' @ [CHR 0xF0, CHR 0x9F, CHR 0x8E, CHR 0x89]"

definition bullet :: string where
  "bullet = [CHR 0xE2, CHR 0x80, CHR 0xA2]"

definition newline :: string where
  "newline = [CHR 0x0A]"

definition no_members :: string where
  "no_members = ''No members found''"

text \<open>Line 165: the link is built when \<^verbatim>\<open>member.get('github_url')\<close> is truthy.\<close>

definition github_link :: "env \<Rightarrow> json \<Rightarrow> error + string" where
  "github_link E member =
     (case dict_get member ''github_url'' JNull of
        Inl e \<Rightarrow> Inl e
      | Inr g \<Rightarrow>
          if truthy g then
            (case getitem member ''github_url'' of
               Inl e \<Rightarrow> Inl e
             | Inr u \<Rightarrow> Inr ('' (<'' @ fmt E u @ ''|GitHub>)''))
          else Inr [])"

text \<open>Line 166, without the link.\<close>

definition member_text :: "env \<Rightarrow> json \<Rightarrow> error + string" where
  "member_text E member =
     (case dict_get member ''name'' (JStr ''Unknown'') of
        Inl e \<Rightarrow> Inl e
      | Inr n \<Rightarrow>
          (case dict_get member ''email'' (JStr ''No email'') of
             Inl e \<Rightarrow> Inl e
           | Inr m \<Rightarrow> Inr (bullet @ '' '' @ fmt E n @ '' ('' @ fmt E m @ '')'')))"

definition member_line :: "env \<Rightarrow> json \<Rightarrow> error + string" where
  "member_line E member =
     (case github_link E member of
        Inl e \<Rightarrow> Inl e
      | Inr link \<Rightarrow>
          (case member_text E member of Inl e \<Rightarrow> Inl e | Inr t \<Rightarrow> Inr (t @ link)))"

fun append_member_lines :: "env \<Rightarrow> json list \<Rightarrow> string list \<Rightarrow> error + string list" where
  "append_member_lines E [] message = Inr message"
| "append_member_lines E (member # members) message =
     (case member_line E member of
        Inl e \<Rightarrow> Inl e
      | Inr l \<Rightarrow> append_member_lines E members (message @ [l]))"

text \<open>\<^verbatim>\<open>sep.join(parts)\<close>.\<close>

fun join :: "string \<Rightarrow> string list \<Rightarrow> string" where
  "join sep [] = []"
| "join sep [x] = x"
| "join sep (x # y # ys) = x @ sep @ join sep (y # ys)"

text \<open>The six entries of lines 154 to 161; the clock is read after the three
  subscripts of \<^verbatim>\<open>org\<close>.\<close>

definition message_head :: "env \<Rightarrow> json \<Rightarrow> json \<Rightarrow> json \<Rightarrow> real \<Rightarrow> string list" where
  "message_head E name display_name ident t =
     [header,
      ''*Name:* '' @ fmt E name,
      ''*Display Name:* '' @ fmt E display_name,
      ''*ID:* '' @ fmt E ident,
      ''*Time:* '' @ strftime E t,
      newline @ ''*Members:*'']"

definition format_slack_message ::
    "env \<Rightarrow> json \<Rightarrow> json list \<Rightarrow> world \<Rightarrow> (error + string) \<times> world" where
  "format_slack_message E org members w =
     (case getitem org ''name'' of
        Inl e \<Rightarrow> (Inl e, w)
      | Inr name \<Rightarrow>
          (case getitem org ''display_name'' of
             Inl e \<Rightarrow> (Inl e, w)
           | Inr display_name \<Rightarrow>
               (case getitem org ''id'' of
                  Inl e \<Rightarrow> (Inl e, w)
                | Inr ident \<Rightarrow>
                    (let (t, w1) = now_timestamp E w;
                         message = message_head E name display_name ident t
                     in case (if members \<noteq> [] then append_member_lines E members message
                              else Inr (message @ [no_members])) of
                          Inl e \<Rightarrow> (Inl e, w1)
                        | Inr lines \<Rightarrow> (Inr (join newline lines), w1)))))"

text \<open>The console loop of lines 185 and 186 calls \<^verbatim>\<open>member.get\<close> twice per member.\<close>

fun print_members :: "json list \<Rightarrow> error + unit" where
  "print_members [] = Inr ()"
| "print_members (member # members) =
     (case dict_get member ''name'' (JStr ''Unknown'') of
        Inl e \<Rightarrow> Inl e
      | Inr n \<Rightarrow>
          (case dict_get member ''email'' (JStr ''No email'') of
             Inl e \<Rightarrow> Inl e
           | Inr m \<Rightarrow> print_members members))"

text \<open>
  Lines 172 to 196. The clock reading of line 175 and the three subscripts of lines 176
  to 178 stand before the \<^verbatim>\<open>try\<close>: their exceptions leave the function. Inside the
  \<^verbatim>\<open>try\<close> every exception is printed and the function returns normally.
\<close>

definition print_organization_details :: "env \<Rightarrow> json \<Rightarrow> world \<Rightarrow> (error + unit) \<times> world" where
  "print_organization_details E org w =
     (let (t, w0) = now_timestamp E w in
      case getitem org ''id'' of
        Inl e \<Rightarrow> (Inl e, w0)
      | Inr ident \<Rightarrow>
          (case getitem org ''name'' of
             Inl e \<Rightarrow> (Inl e, w0)
           | Inr name \<Rightarrow>
               (case getitem org ''display_name'' of
                  Inl e \<Rightarrow> (Inl e, w0)
                | Inr display_name \<Rightarrow>
                    (let (token, w1) = get_auth0_token E w0;
                         (members, w2) = get_organization_members E ident token w1
                     in case print_members members of
                          Inl e \<Rightarrow> (Inr (), print_log (DetailsError e) w2)
                        | Inr u \<Rightarrow>
                            (case format_slack_message E org members w2 of
                               (Inl e, w3) \<Rightarrow> (Inr (), print_log (DetailsError e) w3)
                             | (Inr message, w3) \<Rightarrow>
                                 (Inr (), send_slack_message E message w3))))))"

section \<open>Poll loop\<close>

text \<open>The loop of lines 213 and 214 over the new organizations.\<close>

fun notify_all :: "env \<Rightarrow> json list \<Rightarrow> world \<Rightarrow> (error + unit) \<times> world" where
  "notify_all E [] w = (Inr (), w)"
| "notify_all E (org # orgs) w =
     (case print_organization_details E org w of
        (Inl e, w1) \<Rightarrow> (Inl e, w1)
      | (Inr u, w1) \<Rightarrow> notify_all E orgs w1)"

text \<open>The \<^verbatim>\<open>try\<close> body of lines 206 to 223: one cycle up to and including the sleep of
  one minute, or the exception that leaves it.\<close>

definition poll_once :: "env \<Rightarrow> world \<Rightarrow> (error + unit) \<times> world" where
  "poll_once E w =
     (case get_organizations E w of
        (Inl e, w1) \<Rightarrow> (Inl e, w1)
      | (Inr current_orgs, w1) \<Rightarrow>
          (case load_previous_orgs E w1 of
             Inl e \<Rightarrow> (Inl e, w1)
           | Inr previous_orgs \<Rightarrow>
               (case find_new_organizations current_orgs previous_orgs of
                  Inl e \<Rightarrow> (Inl e, w1)
                | Inr new_orgs \<Rightarrow>
                    (case (if new_orgs \<noteq> [] then notify_all E new_orgs w1
                           else (Inr (), snd (now_timestamp E w1))) of
                       (Inl e, w2) \<Rightarrow> (Inl e, w2)
                     | (Inr u, w2) \<Rightarrow>
                         (Inr (), sleep 60 (save_previous_orgs E current_orgs w2))))))"

text \<open>One iteration of \<^verbatim>\<open>while True\<close> with the handler of lines 228 to 231.\<close>

definition poll_cycle :: "env \<Rightarrow> world \<Rightarrow> world" where
  "poll_cycle E w =
     (case poll_once E w of
        (Inl e, w1) \<Rightarrow> sleep (5 * 60) (print_log (CycleError e) w1)
      | (Inr u, w1) \<Rightarrow> w1)"

text \<open>The loop never ends by itself; the first argument is the number of iterations
  run before the process is interrupted from outside.\<close>

fun poll_organizations :: "nat \<Rightarrow> env \<Rightarrow> world \<Rightarrow> world" where
  "poll_organizations 0 E w = w"
| "poll_organizations (Suc n) E w = poll_organizations n E (poll_cycle E w)"

section \<open>Notions used to state the properties\<close>

text \<open>A JSON number as a float; a bool counts as 0 or 1, as in Python arithmetic, and an
  int beyond float range has no float.\<close>

fun number :: "json \<Rightarrow> real option" where
  "number (JBool b) = Some (if b then 1 else 0)"
| "number (JInt i) = (if fits_float i then Some (of_int i) else None)"
| "number (JFloat r) = Some r"
| "number _ = None"

text \<open>The lifetime a token reply announces: its \<^verbatim>\<open>expires_in\<close>, 3600 when the field is
  absent, nothing when the field is not a number that converts to a float.\<close>

definition server_ttl :: "json \<Rightarrow> real option" where
  "server_ttl token_data =
     (case dict_get token_data ''expires_in'' (JInt 3600) of Inl e \<Rightarrow> None | Inr v \<Rightarrow> number v)"

text \<open>The condition of line 34 at the next clock reading: a truthy token is cached, a
  non-zero expiry is stored, and the clock is strictly before it.\<close>

definition cache_usable :: "env \<Rightarrow> world \<Rightarrow> bool" where
  "cache_usable E w =
     (case token_expiry w of
        None \<Rightarrow> False
      | Some e \<Rightarrow> truthy (cached_token w) \<and> e \<noteq> 0 \<and> clock E (clock_reads w) < e)"

text \<open>A Python dict, the only value with a \<^verbatim>\<open>get\<close> method.\<close>

fun is_dict :: "json \<Rightarrow> bool" where
  "is_dict (JObj kv) = True"
| "is_dict _ = False"

text \<open>The value \<^verbatim>\<open>member.get(k)\<close> of a dict, \<^verbatim>\<open>None\<close> when the key is missing.\<close>

definition field :: "json \<Rightarrow> string \<Rightarrow> json" where
  "field m k = (case dict_get m k JNull of Inl e \<Rightarrow> JNull | Inr v \<Rightarrow> v)"

text \<open>The notifications among the requests sent so far.\<close>

fun is_slack :: "request \<Rightarrow> bool" where
  "is_slack (SlackPost url message) = True"
| "is_slack _ = False"

definition notifications :: "world \<Rightarrow> request list" where
  "notifications w = filter is_slack (sent w)"

text \<open>A step from \<open>w\<close> to \<open>w'\<close> that writes no snapshot, sleeps not and notifies nobody.\<close>

definition quiet :: "world \<Rightarrow> world \<Rightarrow> bool" where
  "quiet w w' =
     (previous_orgs_file w' = previous_orgs_file w \<and> slept w' = slept w
      \<and> notifications w' = notifications w)"

text \<open>An organization record with the three fields the notifier reads.\<close>

definition has_fields :: "json \<Rightarrow> bool" where
  "has_fields org =
     (case getitem org ''id'' of
        Inl e \<Rightarrow> False
      | Inr i \<Rightarrow>
          (case getitem org ''name'' of
             Inl e \<Rightarrow> False
           | Inr n \<Rightarrow> (case getitem org ''display_name'' of Inl e \<Rightarrow> False | Inr d \<Rightarrow> True)))"

text \<open>A member as the identity provider lists it: a dict whose \<^verbatim>\<open>user_id\<close>, when
  present, is a str.\<close>

fun well_formed_member :: "json \<Rightarrow> bool" where
  "well_formed_member (JObj kv) =
     (case map_of kv ''user_id'' of None \<Rightarrow> True | Some (JStr s) \<Rightarrow> True | Some v \<Rightarrow> False)"
| "well_formed_member v = False"

text \<open>The GitHub id under which a well-formed member is looked up; \<open>None\<close> when no lookup
  is made: the account reference lacks the marker \<^verbatim>\<open>github\<close>, or its last segment is
  empty.\<close>

definition lookup_id :: "json \<Rightarrow> string option" where
  "lookup_id member =
     (case dict_get member ''user_id'' (JStr []) of
        Inr (JStr s) \<Rightarrow>
          if str_contains ''github'' s \<and> last (split_on CHR ''|'' s) \<noteq> []
          then Some (last (split_on CHR ''|'' s)) else None
      | other \<Rightarrow> None)"

text \<open>A profile lookup fails when the transport raises, the status is not 200, or the
  body is not JSON: the cases in which \<open>get_github_user_info\<close> returns \<^verbatim>\<open>None\<close>.\<close>

fun lookup_failed :: "response \<Rightarrow> bool" where
  "lookup_failed ConnectionError = True"
| "lookup_failed (Reply st body) = (st \<noteq> 200 \<or> body = None)"

text \<open>A reply of the profile endpoint in the shape its interface promises: a 200 body is
  an object (or falsy).\<close>

fun well_shaped :: "response \<Rightarrow> bool" where
  "well_shaped ConnectionError = True"
| "well_shaped (Reply st None) = True"
| "well_shaped (Reply st (Some v)) = (st \<noteq> 200 \<or> is_dict v \<or> \<not> truthy v)"

text \<open>The profile URL that a reply yields.\<close>

definition profile_url :: "response \<Rightarrow> json" where
  "profile_url r =
     (case r of
        ConnectionError \<Rightarrow> JNull
      | Reply st None \<Rightarrow> JNull
      | Reply st (Some v) \<Rightarrow> if st = 200 \<and> truthy v then field v ''html_url'' else JNull)"

text \<open>The number of lookups made for the members before position \<open>i\<close>.\<close>

definition lookups_before :: "json list \<Rightarrow> nat \<Rightarrow> nat" where
  "lookups_before members i = length (filter (\<lambda>m. lookup_id m \<noteq> None) (take i members))"

text \<open>The enriched record of a member whose lookup, if any, is request number \<open>n\<close>, and
  the enriched records of a list of members, the first lookup being request number \<open>n\<close>.\<close>

definition enriched :: "env \<Rightarrow> nat \<Rightarrow> json \<Rightarrow> json" where
  "enriched E n member =
     JObj [(''name'', case dict_get member ''name'' (JStr ''Unknown'') of
                        Inl e \<Rightarrow> JNull | Inr v \<Rightarrow> v),
           (''email'', case dict_get member ''email'' (JStr ''No email'') of
                         Inl e \<Rightarrow> JNull | Inr v \<Rightarrow> v),
           (''github_url'', case lookup_id member of
                              None \<Rightarrow> JNull
                            | Some g \<Rightarrow> profile_url (http E n (GithubUserGet g)))]"

fun enrich_all :: "env \<Rightarrow> nat \<Rightarrow> json list \<Rightarrow> json list" where
  "enrich_all E n [] = []"
| "enrich_all E n (m # ms) =
     enriched E n m # enrich_all E (case lookup_id m of None \<Rightarrow> n | Some g \<Rightarrow> Suc n) ms"

section \<open>Concrete scenarios\<close>

text \<open>Two organization records and the state of a freshly started process.\<close>

definition orgA :: json where
  "orgA = JObj [(''id'', JStr ''A''), (''name'', JStr ''acme''), (''display_name'', JStr ''Acme'')]"

definition orgB :: json where
  "orgB = JObj [(''id'', JStr ''B''), (''name'', JStr ''bolt''), (''display_name'', JStr ''Bolt'')]"

definition world0 :: world where
  "world0 = \<lparr>cached_token = JNull, token_expiry = None, previous_orgs_file = None,
              sent = [], clock_reads = 0, slept = [], printed = []\<rparr>"

text \<open>A toy codec for the snapshot file, inverse on three listings.\<close>

definition demo_dumps :: "json \<Rightarrow> string" where
  "demo_dumps v =
     (if v = JArr [] then ''[]''
      else if v = JArr [orgA] then ''[A]''
      else if v = JArr [orgA, orgB] then ''[A, B]''
      else ''?'')"

definition demo_loads :: "string \<Rightarrow> json option" where
  "demo_loads s =
     (if s = ''[]'' then Some (JArr [])
      else if s = ''[A]'' then Some (JArr [orgA])
      else if s = ''[A, B]'' then Some (JArr [orgA, orgB])
      else None)"

text \<open>An environment whose network is down; the scenarios below replace \<open>http\<close>.\<close>

definition base_env :: env where
  "base_env = \<lparr>http = (\<lambda>n r. ConnectionError), clock = (\<lambda>n. 1000 + real n),
      strftime = (\<lambda>t. ''2024-01-01 00:00:00''), str_of = (\<lambda>v. ''?''),
      json_dumps = demo_dumps, json_loads = demo_loads,
      SLACK_WEBHOOK_URL = Some ''https://hooks.example/T''\<rparr>"

text \<open>A token endpoint that answers every call with status 200 and the given body.\<close>

definition token_env :: "json \<Rightarrow> env" where
  "token_env body = base_env\<lparr>http := (\<lambda>n r. Reply 200 (Some body))\<rparr>"

definition token_body :: json where
  "token_body = JObj [(''access_token'', JStr ''tok1''), (''expires_in'', JInt 3600)]"

definition empty_token_body :: json where
  "empty_token_body = JObj [(''access_token'', JStr []), (''expires_in'', JInt 3600)]"

definition bad_ttl_body :: json where
  "bad_ttl_body = JObj [(''access_token'', JStr ''tok2''), (''expires_in'', JStr ''86400'')]"

definition huge_ttl_body :: json where
  "huge_ttl_body = JObj [(''access_token'', JStr ''tok2''), (''expires_in'', JInt (10 ^ 400))]"

text \<open>A process whose cached token \<^verbatim>\<open>tok1\<close> expired at time 10.\<close>

definition expired_world :: world where
  "expired_world = world0\<lparr>cached_token := JStr ''tok1'', token_expiry := Some 10\<rparr>"

text \<open>Members as \<open>get_organization_members\<close> builds them, one with an empty profile
  URL, and a member record with no key at all.\<close>

definition ann :: json where
  "ann = JObj [(''name'', JStr ''Ann''), (''email'', JStr ''ann@example.com''),
               (''github_url'', JStr [])]"

definition bob :: json where
  "bob = JObj [(''name'', JStr ''Bob''), (''email'', JStr ''bob@example.com''),
               (''github_url'', JStr ''https://github.com/bob'')]"

definition cy :: json where
  "cy = JObj [(''name'', JStr ''Cy''), (''email'', JStr ''cy@example.com''),
              (''github_url'', JNull)]"

definition nobody :: json where
  "nobody = JObj []"

text \<open>A listing endpoint that reports the organizations A and B, a member endpoint that
  reports one GitHub member, and a world whose snapshot holds A alone.\<close>

definition octo :: json where
  "octo = JObj [(''user_id'', JStr ''github|583231''), (''name'', JStr ''Octo''),
                (''email'', JStr ''octo@example.com'')]"

definition healthy_env :: env where
  "healthy_env = base_env\<lparr>http := (\<lambda>n r.
      case r of
        TokenPost \<Rightarrow> Reply 200 (Some token_body)
      | OrganizationsGet t \<Rightarrow> Reply 200 (Some (JArr [orgA, orgB]))
      | MembersGet i t \<Rightarrow> Reply 200 (Some (JArr [octo]))
      | GithubUserGet g \<Rightarrow> Reply 200 (Some (JObj [(''html_url'', JStr ''https://github.com/octo'')]))
      | SlackPost u m \<Rightarrow> Reply 200 None)\<rparr>"


definition snapshot_world :: world where
  "snapshot_world = world0\<lparr>previous_orgs_file := Some ''[A]''\<rparr>"

text \<open>Three members: the lookup of the first answers 404, the lookup of the second
  succeeds, the third has no GitHub account.\<close>

definition mona :: json where
  "mona = JObj [(''user_id'', JStr ''github|2''), (''name'', JStr ''Mona''),
                (''email'', JStr ''mona@example.com'')]"

definition plain :: json where
  "plain = JObj [(''user_id'', JStr ''auth0|77''), (''name'', JStr ''Plain'')]"

definition lookup_env :: env where
  "lookup_env = base_env\<lparr>http := (\<lambda>n r.
      case r of
        TokenPost \<Rightarrow> Reply 200 (Some token_body)
      | OrganizationsGet t \<Rightarrow> Reply 200 (Some (JArr [orgA, orgB]))
      | MembersGet i t \<Rightarrow> Reply 200 (Some (JArr [octo, mona, plain]))
      | GithubUserGet g \<Rightarrow>
          if g = ''583231'' then Reply 404 None
          else Reply 200 (Some (JObj [(''html_url'', JStr ''https://github.com/mona'')]))
      | SlackPost u m \<Rightarrow> Reply 200 None)\<rparr>"

text \<open>The same listing with a profile endpoint that answers the first member's lookup
  with status 200 and a JSON list; and a listing whose second member has a null
  \<^verbatim>\<open>user_id\<close>, with the profile endpoint of \<open>lookup_env\<close>.\<close>

definition junk_lookup_env :: env where
  "junk_lookup_env = base_env\<lparr>http := (\<lambda>n r.
      case r of
        TokenPost \<Rightarrow> Reply 200 (Some token_body)
      | OrganizationsGet t \<Rightarrow> Reply 200 (Some (JArr [orgA, orgB]))
      | MembersGet i t \<Rightarrow> Reply 200 (Some (JArr [octo, mona, plain]))
      | GithubUserGet g \<Rightarrow>
          if g = ''583231'' then Reply 200 (Some (JArr [JStr ''moved'']))
          else Reply 200 (Some (JObj [(''html_url'', JStr ''https://github.com/mona'')]))
      | SlackPost u m \<Rightarrow> Reply 200 None)\<rparr>"

definition null_uid :: json where
  "null_uid = JObj [(''user_id'', JNull), (''name'', JStr ''Nul''),
                    (''email'', JStr ''nul@example.com'')]"

definition null_uid_env :: env where
  "null_uid_env = lookup_env\<lparr>http := (\<lambda>n r.
      case r of
        MembersGet i t \<Rightarrow> Reply 200 (Some (JArr [plain, null_uid, mona]))
      | other \<Rightarrow> http lookup_env n other)\<rparr>"

section \<open>The diff engine returns the organizations not seen before\<close>

lemma previous_ids_map:
  "\<forall>org\<in>set orgs. has_id org \<Longrightarrow> previous_ids orgs = Inr (map the_id orgs)"
  by (induction orgs) (auto simp: has_id_def the_id_def split: sum.splits)

lemma select_new_filter:
  "\<forall>org\<in>set orgs. has_id org \<Longrightarrow>
     select_new ids orgs = Inr (filter (\<lambda>org. the_id org \<notin> set ids) orgs)"
  by (induction orgs) (auto simp: has_id_def the_id_def split: sum.splits)

text \<open>
  Claim C1. For lists \<open>current\<close> and \<open>previous\<close> of records that each have an
  \<^verbatim>\<open>id\<close>, \<open>find_new_organizations\<close> returns exactly the elements of \<open>current\<close> whose id is
  not an id of \<open>previous\<close>, in the order of \<open>current\<close>; the result is empty when every id
  of \<open>current\<close> occurs in \<open>previous\<close>. The function takes no state and returns none, so
  neither input is modified.
\<close>

theorem find_new_organizations_filter:
  assumes "\<forall>org\<in>set current. has_id org" and "\<forall>org\<in>set previous. has_id org"
  shows "find_new_organizations (JArr current) (JArr previous) =
           Inr (filter (\<lambda>org. the_id org \<notin> the_id ` set previous) current)
       \<and> (the_id ` set current \<subseteq> the_id ` set previous \<longrightarrow>
            find_new_organizations (JArr current) (JArr previous) = Inr [])"
proof -
  have eq: "find_new_organizations (JArr current) (JArr previous) =
           Inr (filter (\<lambda>org. the_id org \<notin> the_id ` set previous) current)"
    using assms by (simp add: find_new_organizations_def previous_ids_map select_new_filter)
  moreover have "the_id ` set current \<subseteq> the_id ` set previous \<Longrightarrow>
      filter (\<lambda>org. the_id org \<notin> the_id ` set previous) current = []"
    by (auto simp: filter_empty_conv)
  ultimately show ?thesis by simp
qed

theorem find_new_organizations_filter_witness:
  "find_new_organizations (JArr [orgA, orgB]) (JArr [orgA]) = Inr [orgB]
   \<and> find_new_organizations (JArr [orgA]) (JArr [orgA]) = Inr []"
  using find_new_organizations_filter [of "[orgA, orgB]" "[orgA]"]
        find_new_organizations_filter [of "[orgA]" "[orgA]"]
  by (simp add: has_id_def the_id_def id_key_def orgA_def orgB_def)

section \<open>The token cache\<close>

lemmas token_simps = exchange_token_def request_op_def now_timestamp_def print_log_def

lemma fits_float_3600 [simp]: "fits_float 3600"
  by (simp add: fits_float_def)

lemma times_0_9_number: "number v = Some x \<Longrightarrow> times_0_9 v = Inr (0.9 * x)"
  by (cases v) (auto split: if_splits)

lemma exchange_token_sent: "sent (snd (exchange_token E w)) = sent w @ [TokenPost]"
  by (simp add: token_simps Let_def split: response.splits option.splits sum.splits prod.splits)

lemma exchange_token_success:
  assumes "http E (length (sent w)) TokenPost = Reply st (Some body)"
    and "\<not> raises_for_status st"
    and "getitem body ''access_token'' = Inr tok"
    and "server_ttl body = Some ttl"
  shows "exchange_token E w =
     (tok, w\<lparr>sent := sent w @ [TokenPost], cached_token := tok,
             clock_reads := Suc (clock_reads w),
             token_expiry := Some (clock E (clock_reads w) + 0.9 * ttl)\<rparr>)"
  using assms
  by (auto simp: token_simps Let_def server_ttl_def times_0_9_number split: sum.splits)

lemma exchange_token_result:
  "fst (exchange_token E w) = JNull \<or>
   (\<exists>st body. http E (length (sent w)) TokenPost = Reply st (Some body)
       \<and> getitem body ''access_token'' = Inr (fst (exchange_token E w)))"
  by (auto simp: token_simps Let_def split: response.splits option.splits sum.splits prod.splits)

lemma get_auth0_token_cases:
  "get_auth0_token E w =
     (if cache_usable E w then (cached_token w, w\<lparr>clock_reads := Suc (clock_reads w)\<rparr>)
      else if truthy (cached_token w) \<and> token_expiry w \<noteq> None \<and> token_expiry w \<noteq> Some 0
           then exchange_token E (w\<lparr>clock_reads := Suc (clock_reads w)\<rparr>)
      else exchange_token E w)"
  by (auto simp: get_auth0_token_def cache_usable_def now_timestamp_def split: option.splits)

lemma get_auth0_token_exchange:
  assumes "\<not> cache_usable E w"
  shows "\<exists>w0. get_auth0_token E w = exchange_token E w0 \<and> sent w0 = sent w
            \<and> previous_orgs_file w0 = previous_orgs_file w \<and> slept w0 = slept w"
proof -
  have "get_auth0_token E w = exchange_token E w \<or>
        get_auth0_token E w = exchange_token E (w\<lparr>clock_reads := Suc (clock_reads w)\<rparr>)"
    using assms by (simp add: get_auth0_token_cases)
  then show ?thesis
  proof
    assume "get_auth0_token E w = exchange_token E w"
    then show ?thesis by (intro exI [of _ w]) simp
  next
    assume "get_auth0_token E w = exchange_token E (w\<lparr>clock_reads := Suc (clock_reads w)\<rparr>)"
    then show ?thesis by (intro exI [of _ "w\<lparr>clock_reads := Suc (clock_reads w)\<rparr>"]) simp
  qed
qed

text \<open>
  Claim C3 as stated fails: it promises the cached value without an exchange whenever
  the clock is before the stored expiry. Line 34 also asks that the cached token be
  truthy. A token endpoint that answers with the empty string as \<^verbatim>\<open>access_token\<close> and
  a lifetime of 3600 s makes the first call, at time 1000, store the expiry 4240; the
  second call reads the clock at 1001, before the expiry, and still performs a second
  exchange.
\<close>

theorem get_auth0_token_empty_token_counterexample:
  "token_expiry (snd (get_auth0_token (token_env empty_token_body) world0)) = Some 4240
   \<and> clock (token_env empty_token_body)
        (clock_reads (snd (get_auth0_token (token_env empty_token_body) world0))) < 4240
   \<and> sent (snd (get_auth0_token (token_env empty_token_body) world0)) = [TokenPost]
   \<and> sent (snd (get_auth0_token (token_env empty_token_body)
               (snd (get_auth0_token (token_env empty_token_body) world0))))
       = [TokenPost, TokenPost]"
  by (simp add: get_auth0_token_def token_simps raises_for_status_def token_env_def
      base_env_def empty_token_body_def world0_def)

text \<open>
  Claim C3, amended. When a truthy (non-empty) token is cached, a non-zero expiry is
  stored and the clock is strictly before it, \<open>get_auth0_token\<close> returns the cached token
  and changes nothing but the count of clock readings: no request is sent. Otherwise it
  sends exactly one request, the token exchange; it returns \<^verbatim>\<open>None\<close> or the
  \<^verbatim>\<open>access_token\<close> of the reply to that exchange, never the old value by itself; and when
  the reply has no error status, holds an \<^verbatim>\<open>access_token\<close> and a numeric lifetime \<open>ttl\<close>
  that converts to a float (3600 when absent), it returns that token and stores it with
  expiry = the last clock reading + 0.9 \<open>\<times>\<close> \<open>ttl\<close>.
\<close>

theorem get_auth0_token_cache:
  "(cache_usable E w \<longrightarrow>
      get_auth0_token E w = (cached_token w, w\<lparr>clock_reads := Suc (clock_reads w)\<rparr>))
   \<and> (\<not> cache_usable E w \<longrightarrow>
        sent (snd (get_auth0_token E w)) = sent w @ [TokenPost]
        \<and> (fst (get_auth0_token E w) = JNull \<or>
           (\<exists>st body. http E (length (sent w)) TokenPost = Reply st (Some body)
              \<and> getitem body ''access_token'' = Inr (fst (get_auth0_token E w))))
        \<and> (\<forall>st body tok ttl.
              http E (length (sent w)) TokenPost = Reply st (Some body)
              \<and> \<not> raises_for_status st
              \<and> getitem body ''access_token'' = Inr tok
              \<and> server_ttl body = Some ttl \<longrightarrow>
              fst (get_auth0_token E w) = tok
              \<and> cached_token (snd (get_auth0_token E w)) = tok
              \<and> token_expiry (snd (get_auth0_token E w)) =
                  Some (clock E (clock_reads (snd (get_auth0_token E w)) - 1) + 0.9 * ttl)))"
proof (intro conjI impI)
  assume "cache_usable E w"
  then show "get_auth0_token E w = (cached_token w, w\<lparr>clock_reads := Suc (clock_reads w)\<rparr>)"
    by (simp add: get_auth0_token_cases)
next
  assume n: "\<not> cache_usable E w"
  from get_auth0_token_exchange [OF n]
  obtain w0 where g: "get_auth0_token E w = exchange_token E w0"
    and s: "sent w0 = sent w" by blast
  show "sent (snd (get_auth0_token E w)) = sent w @ [TokenPost]"
    by (simp add: g s exchange_token_sent)
  show "fst (get_auth0_token E w) = JNull \<or>
           (\<exists>st body. http E (length (sent w)) TokenPost = Reply st (Some body)
              \<and> getitem body ''access_token'' = Inr (fst (get_auth0_token E w)))"
    using exchange_token_result [of E w0] by (simp add: g s)
  show "\<forall>st body tok ttl.
              http E (length (sent w)) TokenPost = Reply st (Some body)
              \<and> \<not> raises_for_status st
              \<and> getitem body ''access_token'' = Inr tok
              \<and> server_ttl body = Some ttl \<longrightarrow>
              fst (get_auth0_token E w) = tok
              \<and> cached_token (snd (get_auth0_token E w)) = tok
              \<and> token_expiry (snd (get_auth0_token E w)) =
                  Some (clock E (clock_reads (snd (get_auth0_token E w)) - 1) + 0.9 * ttl)"
  proof (intro allI impI)
    fix st body tok ttl
    assume h: "http E (length (sent w)) TokenPost = Reply st (Some body)
              \<and> \<not> raises_for_status st
              \<and> getitem body ''access_token'' = Inr tok
              \<and> server_ttl body = Some ttl"
    have "exchange_token E w0 =
     (tok, w0\<lparr>sent := sent w0 @ [TokenPost], cached_token := tok,
             clock_reads := Suc (clock_reads w0),
             token_expiry := Some (clock E (clock_reads w0) + 0.9 * ttl)\<rparr>)"
      using h by (intro exchange_token_success [where st = st and body = body]) (simp_all add: s)
    then show "fst (get_auth0_token E w) = tok
              \<and> cached_token (snd (get_auth0_token E w)) = tok
              \<and> token_expiry (snd (get_auth0_token E w)) =
                  Some (clock E (clock_reads (snd (get_auth0_token E w)) - 1) + 0.9 * ttl)"
      by (simp add: g)
  qed
qed

theorem get_auth0_token_cache_witness:
  "\<not> cache_usable (token_env token_body) world0
   \<and> get_auth0_token (token_env token_body) world0 =
       (JStr ''tok1'',
        world0\<lparr>sent := [TokenPost], cached_token := JStr ''tok1'', clock_reads := 1,
               token_expiry := Some 4240\<rparr>)
   \<and> cache_usable (token_env token_body) (snd (get_auth0_token (token_env token_body) world0))
   \<and> get_auth0_token (token_env token_body) (snd (get_auth0_token (token_env token_body) world0)) =
       (JStr ''tok1'',
        world0\<lparr>sent := [TokenPost], cached_token := JStr ''tok1'', clock_reads := 2,
               token_expiry := Some 4240\<rparr>)"
proof -
  let ?E = "token_env token_body"
  have n: "\<not> cache_usable ?E world0"
    by (simp add: cache_usable_def world0_def)
  have r: "http ?E (length (sent world0)) TokenPost = Reply 200 (Some token_body)
      \<and> \<not> raises_for_status 200
      \<and> getitem token_body ''access_token'' = Inr (JStr ''tok1'')
      \<and> server_ttl token_body = Some 3600"
    by (simp add: token_env_def base_env_def raises_for_status_def token_body_def server_ttl_def)
  have first: "get_auth0_token ?E world0 =
       (JStr ''tok1'',
        world0\<lparr>sent := [TokenPost], cached_token := JStr ''tok1'', clock_reads := 1,
               token_expiry := Some 4240\<rparr>)"
    by (simp add: get_auth0_token_def token_simps raises_for_status_def token_env_def
        base_env_def token_body_def world0_def)
  have u: "cache_usable ?E (snd (get_auth0_token ?E world0))"
    unfolding first by (simp add: cache_usable_def world0_def token_env_def base_env_def)
  from get_auth0_token_cache [of ?E "snd (get_auth0_token ?E world0)"] u
  have second: "get_auth0_token ?E (snd (get_auth0_token ?E world0)) =
      (cached_token (snd (get_auth0_token ?E world0)),
       (snd (get_auth0_token ?E world0))\<lparr>clock_reads :=
          Suc (clock_reads (snd (get_auth0_token ?E world0)))\<rparr>)"
    by blast
  show ?thesis
    using n first u second by (simp add: world0_def)
qed

text \<open>
  Claim C9. A failed exchange should leave the cached value and the expiry as they
  were. Here the process holds the expired token \<^verbatim>\<open>tok1\<close> and the endpoint answers 200
  with \<^verbatim>\<open>{"access_token": "tok2", "expires_in": "86400"}\<close>. Line 47 stores \<^verbatim>\<open>tok2\<close>,
  line 48 raises a TypeError on the string lifetime, the handler prints it and the call
  returns \<^verbatim>\<open>None\<close>: the cached value has changed, the expiry has not.
\<close>

theorem get_auth0_token_bad_ttl_overwrites_cache:
  "fst (get_auth0_token (token_env bad_ttl_body) expired_world) = JNull
   \<and> printed (snd (get_auth0_token (token_env bad_ttl_body) expired_world))
       = [TokenError TypeError]
   \<and> cached_token expired_world = JStr ''tok1''
   \<and> cached_token (snd (get_auth0_token (token_env bad_ttl_body) expired_world)) = JStr ''tok2''
   \<and> token_expiry (snd (get_auth0_token (token_env bad_ttl_body) expired_world)) = Some 10"
  by (simp add: get_auth0_token_def token_simps raises_for_status_def token_env_def
      base_env_def bad_ttl_body_def expired_world_def world0_def)

text \<open>The failures that happen before line 47 do leave the cache as it was: a transport
  error, an error status, a body that is not JSON, a body without \<^verbatim>\<open>access_token\<close>.\<close>

lemma exchange_token_failure_keeps_cache:
  assumes "case http E (length (sent w)) TokenPost of
             ConnectionError \<Rightarrow> True
           | Reply st body \<Rightarrow>
               raises_for_status st \<or>
               (case body of
                  None \<Rightarrow> True
                | Some token_data \<Rightarrow>
                    (case getitem token_data ''access_token'' of Inl e \<Rightarrow> True | Inr t \<Rightarrow> False))"
  shows "fst (exchange_token E w) = JNull
       \<and> cached_token (snd (exchange_token E w)) = cached_token w
       \<and> token_expiry (snd (exchange_token E w)) = token_expiry w"
  using assms
  by (auto simp: token_simps Let_def split: response.splits option.splits sum.splits)

text \<open>A lifetime beyond float range fails at line 48 as well, with an OverflowError.\<close>

lemma get_auth0_token_huge_ttl:
  "fst (get_auth0_token (token_env huge_ttl_body) expired_world) = JNull
   \<and> printed (snd (get_auth0_token (token_env huge_ttl_body) expired_world))
       = [TokenError OverflowError]
   \<and> cached_token (snd (get_auth0_token (token_env huge_ttl_body) expired_world)) = JStr ''tok2''
   \<and> token_expiry (snd (get_auth0_token (token_env huge_ttl_body) expired_world)) = Some 10"
  by (simp add: get_auth0_token_def token_simps raises_for_status_def token_env_def
      base_env_def huge_ttl_body_def expired_world_def world0_def fits_float_def)

section \<open>The snapshot file\<close>



section \<open>The rendered message\<close>

lemma member_text_dict:
  "member_text E (JObj kv) =
     Inr (bullet @ '' '' @ fmt E (case map_of kv ''name'' of None \<Rightarrow> JStr ''Unknown'' | Some v \<Rightarrow> v)
          @ '' ('' @ fmt E (case map_of kv ''email'' of None \<Rightarrow> JStr ''No email'' | Some v \<Rightarrow> v)
          @ '')'')"
  by (simp add: member_text_def)

lemma github_link_dict:
  "github_link E (JObj kv) =
     Inr (if truthy (field (JObj kv) ''github_url'')
          then '' (<'' @ fmt E (field (JObj kv) ''github_url'') @ ''|GitHub>)'' else [])"
  by (auto simp: github_link_def field_def split: option.splits)

lemma member_line_dict:
  "is_dict m \<Longrightarrow>
     \<exists>t link. member_text E m = Inr t \<and> github_link E m = Inr link \<and> member_line E m = Inr (t @ link)"
  by (cases m) (simp_all add: member_line_def member_text_dict github_link_dict)

lemma append_member_lines_dicts:
  "\<forall>m\<in>set ms. is_dict m \<Longrightarrow>
     \<exists>ls. append_member_lines E ms message = Inr (message @ ls)
        \<and> map (member_line E) ms = map Inr ls"
proof (induction ms arbitrary: message)
  case Nil
  then show ?case by simp
next
  case (Cons m ms)
  then obtain l where l: "member_line E m = Inr l"
    using member_line_dict [of m E] by auto
  from Cons obtain ls where "append_member_lines E ms (message @ [l]) = Inr ((message @ [l]) @ ls)"
    and "map (member_line E) ms = map Inr ls"
    by (metis list.set_intros(2))
  then show ?case
    using l by (intro exI [of _ "l # ls"]) simp
qed

lemma format_slack_message_lines:
  assumes "getitem org ''name'' = Inr name"
    and "getitem org ''display_name'' = Inr display_name"
    and "getitem org ''id'' = Inr ident"
    and "\<forall>m\<in>set members. is_dict m"
  shows "\<exists>lines. format_slack_message E org members w =
           (Inr (join newline
                  (message_head E name display_name ident (clock E (clock_reads w)) @ lines)),
            w\<lparr>clock_reads := Suc (clock_reads w)\<rparr>)
        \<and> (if members = [] then lines = [no_members]
            else map (member_line E) members = map Inr lines)"
proof (cases "members = []")
  case True
  then show ?thesis
    using assms by (simp add: format_slack_message_def now_timestamp_def)
next
  case False
  from append_member_lines_dicts [OF assms(4)]
  obtain ls where "append_member_lines E members
        (message_head E name display_name ident (clock E (clock_reads w))) =
      Inr (message_head E name display_name ident (clock E (clock_reads w)) @ ls)"
    and "map (member_line E) members = map Inr ls"
    by blast
  then show ?thesis
    using assms False
    by (intro exI [of _ ls]) (simp add: format_slack_message_def now_timestamp_def)
qed

text \<open>
  Claim C6 as stated fails in one direction of its "exactly when": line 165 tests the
  truthiness of \<^verbatim>\<open>github_url\<close>, so a member whose profile URL is the empty string, which
  is not null, is rendered without a link.
\<close>

theorem format_slack_message_empty_url_counterexample:
  "getitem ann ''github_url'' = Inr (JStr [])
   \<and> JStr [] \<noteq> JNull
   \<and> github_link base_env ann = Inr []
   \<and> fst (format_slack_message base_env orgA [ann] world0) =
       Inr (join newline
             (message_head base_env (JStr ''acme'') (JStr ''Acme'') (JStr ''A'') 1000
              @ [bullet @ '' Ann (ann@example.com)'']))"
  by (simp add: ann_def orgA_def world0_def base_env_def github_link_def member_text_def
      member_line_def format_slack_message_def now_timestamp_def message_head_def fmt_def)

text \<open>
  Claim C6, amended. For an org with \<^verbatim>\<open>name\<close>, \<^verbatim>\<open>display_name\<close> and \<^verbatim>\<open>id\<close> and a list of
  member dicts, \<open>format_slack_message\<close> is a function of its arguments and the clock
  reading: the text is the six head entries (header, name, display name, id, time,
  members caption) followed, when there are \<open>N > 0\<close> members, by exactly \<open>N\<close> member
  entries in order, joined by newlines; the entry of a member shows its name and email
  and then its link, and the link is omitted exactly when \<^verbatim>\<open>github_url\<close> is missing,
  null or otherwise falsy (the empty string); with no members the only further entry
  is the no-members line.
\<close>

theorem format_slack_message_layout:
  assumes "getitem org ''name'' = Inr name"
    and "getitem org ''display_name'' = Inr display_name"
    and "getitem org ''id'' = Inr ident"
    and "\<forall>m\<in>set members. is_dict m"
  shows "\<exists>lines. format_slack_message E org members w =
           (Inr (join newline
                  (message_head E name display_name ident (clock E (clock_reads w)) @ lines)),
            w\<lparr>clock_reads := Suc (clock_reads w)\<rparr>)
        \<and> (members = [] \<longrightarrow> lines = [no_members])
        \<and> (members \<noteq> [] \<longrightarrow> length lines = length members
             \<and> (\<forall>i<length members. \<exists>n e link.
                   dict_get (members ! i) ''name'' (JStr ''Unknown'') = Inr n
                 \<and> dict_get (members ! i) ''email'' (JStr ''No email'') = Inr e
                 \<and> lines ! i = bullet @ '' '' @ fmt E n @ '' ('' @ fmt E e @ '')'' @ link
                 \<and> (link = [] \<longleftrightarrow> \<not> truthy (field (members ! i) ''github_url''))
                 \<and> (link \<noteq> [] \<longrightarrow>
                      link = '' (<'' @ fmt E (field (members ! i) ''github_url'') @ ''|GitHub>)'')))"
proof -
  from format_slack_message_lines [OF assms, of E w]
  obtain lines where f: "format_slack_message E org members w =
           (Inr (join newline
                  (message_head E name display_name ident (clock E (clock_reads w)) @ lines)),
            w\<lparr>clock_reads := Suc (clock_reads w)\<rparr>)"
    and l: "if members = [] then lines = [no_members]
            else map (member_line E) members = map Inr lines"
    by blast
  have "members \<noteq> [] \<Longrightarrow> length lines = length members"
    using l by (metis length_map)
  moreover have "\<exists>n e link.
                   dict_get (members ! i) ''name'' (JStr ''Unknown'') = Inr n
                 \<and> dict_get (members ! i) ''email'' (JStr ''No email'') = Inr e
                 \<and> lines ! i = bullet @ '' '' @ fmt E n @ '' ('' @ fmt E e @ '')'' @ link
                 \<and> (link = [] \<longleftrightarrow> \<not> truthy (field (members ! i) ''github_url''))
                 \<and> (link \<noteq> [] \<longrightarrow>
                      link = '' (<'' @ fmt E (field (members ! i) ''github_url'') @ ''|GitHub>)'')"
    if "members \<noteq> []" and i: "i < length members" for i
  proof -
    have len: "length lines = length members"
      using l that(1) by (metis length_map)
    have "map (member_line E) members ! i = map Inr lines ! i"
      using l that(1) by simp
    then have line: "member_line E (members ! i) = Inr (lines ! i)"
      using i len by simp
    have "is_dict (members ! i)"
      using assms(4) i by simp
    then obtain kv where kv: "members ! i = JObj kv"
      by (cases "members ! i") simp_all
    let ?g = "field (JObj kv) ''github_url''"
    let ?link = "if truthy ?g then '' (<'' @ fmt E ?g @ ''|GitHub>)'' else []"
    have "lines ! i =
        bullet @ '' '' @ fmt E (case map_of kv ''name'' of None \<Rightarrow> JStr ''Unknown'' | Some v \<Rightarrow> v)
        @ '' ('' @ fmt E (case map_of kv ''email'' of None \<Rightarrow> JStr ''No email'' | Some v \<Rightarrow> v)
        @ '')'' @ ?link"
      using line unfolding kv
      by (simp add: member_line_def member_text_dict github_link_dict)
    then show ?thesis
      unfolding kv
      by (intro exI [of _ "case map_of kv ''name'' of None \<Rightarrow> JStr ''Unknown'' | Some v \<Rightarrow> v"]
                exI [of _ "case map_of kv ''email'' of None \<Rightarrow> JStr ''No email'' | Some v \<Rightarrow> v"]
                exI [of _ ?link]) simp
  qed
  ultimately show ?thesis
    using f l by (intro exI [of _ lines]) auto
qed

theorem format_slack_message_layout_witness:
  "format_slack_message base_env orgA [ann, bob, cy] world0 =
     (Inr (join newline
            (message_head base_env (JStr ''acme'') (JStr ''Acme'') (JStr ''A'') 1000
             @ [bullet @ '' Ann (ann@example.com)'',
                bullet @ '' Bob (bob@example.com) (<https://github.com/bob|GitHub>)'',
                bullet @ '' Cy (cy@example.com)''])),
      world0\<lparr>clock_reads := 1\<rparr>)
   \<and> format_slack_message base_env orgA [] world0 =
     (Inr (join newline
            (message_head base_env (JStr ''acme'') (JStr ''Acme'') (JStr ''A'') 1000
             @ [no_members])),
      world0\<lparr>clock_reads := 1\<rparr>)"
proof -
  have o: "getitem orgA ''name'' = Inr (JStr ''acme'')"
    "getitem orgA ''display_name'' = Inr (JStr ''Acme'')"
    "getitem orgA ''id'' = Inr (JStr ''A'')"
    by (simp_all add: orgA_def)
  have d: "\<forall>m\<in>set [ann, bob, cy]. is_dict m" "\<forall>m\<in>set ([]::json list). is_dict m"
    by (simp_all add: ann_def bob_def cy_def)
  from format_slack_message_layout [OF o d(1), of base_env world0]
       format_slack_message_layout [OF o d(2), of base_env world0]
  have "\<exists>lines. fst (format_slack_message base_env orgA [ann, bob, cy] world0) =
            Inr (join newline
                  (message_head base_env (JStr ''acme'') (JStr ''Acme'') (JStr ''A'')
                     (clock base_env (clock_reads world0)) @ lines))
          \<and> length lines = 3"
    by (metis fst_conv length_Cons list.size(3) numeral_3_eq_3 list.distinct(1))
  then show ?thesis
    by (simp add: ann_def bob_def cy_def orgA_def world0_def base_env_def github_link_def
        member_text_def member_line_def format_slack_message_def now_timestamp_def
        message_head_def fmt_def)
qed

text \<open>
  Claim C10. \<open>format_slack_message\<close> needs only the three fields of the org record: on
  every list of member dicts it returns a message, whatever keys a member lacks. The
  entry of each member is produced, in order; a missing name is rendered as
  \<^verbatim>\<open>Unknown\<close>, a missing email as \<^verbatim>\<open>No email\<close>, and the link is omitted when \<^verbatim>\<open>github_url\<close>
  is missing or null.
\<close>

theorem format_slack_message_partial_members:
  assumes "getitem org ''name'' = Inr name"
    and "getitem org ''display_name'' = Inr display_name"
    and "getitem org ''id'' = Inr ident"
    and "\<forall>m\<in>set members. is_dict m"
  shows "(\<exists>lines. fst (format_slack_message E org members w) =
             Inr (join newline
                   (message_head E name display_name ident (clock E (clock_reads w)) @ lines))
           \<and> (members \<noteq> [] \<longrightarrow> map (member_line E) members = map Inr lines))
       \<and> (\<forall>kv. JObj kv \<in> set members \<longrightarrow>
            (\<exists>n e link.
                member_line E (JObj kv) = Inr (bullet @ '' '' @ n @ '' ('' @ e @ '')'' @ link)
              \<and> (case map_of kv ''name'' of None \<Rightarrow> n = ''Unknown'' | Some v \<Rightarrow> n = fmt E v)
              \<and> (case map_of kv ''email'' of None \<Rightarrow> e = ''No email'' | Some v \<Rightarrow> e = fmt E v)
              \<and> (map_of kv ''github_url'' = None \<or> map_of kv ''github_url'' = Some JNull
                    \<longrightarrow> link = [])))"
proof (intro conjI allI impI)
  from format_slack_message_lines [OF assms, of E w]
  show "\<exists>lines. fst (format_slack_message E org members w) =
             Inr (join newline
                   (message_head E name display_name ident (clock E (clock_reads w)) @ lines))
           \<and> (members \<noteq> [] \<longrightarrow> map (member_line E) members = map Inr lines)"
    by (metis fst_conv)
next
  fix kv
  show "\<exists>n e link.
                member_line E (JObj kv) = Inr (bullet @ '' '' @ n @ '' ('' @ e @ '')'' @ link)
              \<and> (case map_of kv ''name'' of None \<Rightarrow> n = ''Unknown'' | Some v \<Rightarrow> n = fmt E v)
              \<and> (case map_of kv ''email'' of None \<Rightarrow> e = ''No email'' | Some v \<Rightarrow> e = fmt E v)
              \<and> (map_of kv ''github_url'' = None \<or> map_of kv ''github_url'' = Some JNull
                    \<longrightarrow> link = [])"
    by (auto simp: member_line_def member_text_dict github_link_dict field_def fmt_def
        split: option.splits)
qed

theorem format_slack_message_partial_members_witness:
  "fst (format_slack_message base_env orgA [nobody, cy] world0) =
     Inr (join newline
           (message_head base_env (JStr ''acme'') (JStr ''Acme'') (JStr ''A'') 1000
            @ [bullet @ '' Unknown (No email)'', bullet @ '' Cy (cy@example.com)'']))
   \<and> member_line base_env nobody = Inr (bullet @ '' Unknown (No email)'')"
proof -
  have o: "getitem orgA ''name'' = Inr (JStr ''acme'')"
    "getitem orgA ''display_name'' = Inr (JStr ''Acme'')"
    "getitem orgA ''id'' = Inr (JStr ''A'')"
    by (simp_all add: orgA_def)
  have d: "\<forall>m\<in>set [nobody, cy]. is_dict m"
    by (simp add: nobody_def cy_def)
  from format_slack_message_partial_members [OF o d, of base_env world0]
  have "\<exists>n e link. member_line base_env (JObj []) =
           Inr (bullet @ '' '' @ n @ '' ('' @ e @ '')'' @ link)
         \<and> n = ''Unknown'' \<and> e = ''No email'' \<and> link = []"
    by (simp add: nobody_def)
  then have "member_line base_env nobody = Inr (bullet @ '' Unknown (No email)'')"
    by (auto simp: nobody_def)
  then show ?thesis
    by (simp add: nobody_def cy_def orgA_def world0_def base_env_def github_link_def
        member_text_def member_line_def format_slack_message_def now_timestamp_def
        message_head_def fmt_def)
qed

section \<open>What each operation leaves alone\<close>

lemma quiet_refl: "quiet w w"
  by (simp add: quiet_def)

lemma quiet_trans: "quiet w w1 \<Longrightarrow> quiet w1 w2 \<Longrightarrow> quiet w w2"
  by (simp add: quiet_def)

lemma quiet_now_timestamp: "quiet w (snd (now_timestamp E w))"
  by (simp add: quiet_def now_timestamp_def notifications_def)

lemma quiet_clock_reads: "quiet w (w\<lparr>clock_reads := n\<rparr>)"
  by (simp add: quiet_def notifications_def)

lemma quiet_print_log: "quiet w (print_log l w)"
  by (simp add: quiet_def print_log_def notifications_def)

lemma quiet_request_op: "\<not> is_slack r \<Longrightarrow> quiet w (snd (request_op E r w))"
  by (simp add: quiet_def request_op_def notifications_def)

lemma quiet_exchange_token: "quiet w (snd (exchange_token E w))"
  by (simp add: token_simps quiet_def notifications_def Let_def
      split: response.splits option.splits sum.splits prod.splits)

lemma quiet_get_auth0_token: "quiet w (snd (get_auth0_token E w))"
proof (cases "cache_usable E w")
  case True
  then show ?thesis
    by (simp add: get_auth0_token_cases quiet_clock_reads)
next
  case False
  have "quiet w (w\<lparr>clock_reads := Suc (clock_reads w)\<rparr>)"
    by (rule quiet_clock_reads)
  then have "quiet w (snd (exchange_token E (w\<lparr>clock_reads := Suc (clock_reads w)\<rparr>)))"
    using quiet_exchange_token quiet_trans by blast
  then show ?thesis
    using False by (simp add: get_auth0_token_cases quiet_exchange_token)
qed

lemma quiet_get_organizations: "quiet w (snd (get_organizations E w))"
proof -
  obtain token w1 where t: "get_auth0_token E w = (token, w1)"
    by (cases "get_auth0_token E w")
  then have q1: "quiet w w1"
    using quiet_get_auth0_token [of w E] by simp
  have "quiet w1 (snd (get_organizations E w))"
    by (simp add: get_organizations_def t request_op_def quiet_def notifications_def
        split: response.splits option.splits)
  with q1 show ?thesis by (rule quiet_trans)
qed

lemma quiet_get_github_user_info: "quiet w (snd (get_github_user_info E g w))"
  by (simp add: get_github_user_info_def request_op_def print_log_def quiet_def notifications_def
      split: response.splits option.splits)

lemma member_detail_world:
  "snd (member_detail E m w) =
     (case dict_get m ''user_id'' (JStr []) of
        Inl e \<Rightarrow> w
      | Inr u \<Rightarrow>
          (case github_id_of u of
             Inl e \<Rightarrow> w
           | Inr None \<Rightarrow> w
           | Inr (Some g) \<Rightarrow> if g \<noteq> [] then snd (get_github_user_info E g w) else w))"
  by (simp add: member_detail_def Let_def split: sum.splits option.splits prod.splits)

lemma quiet_member_detail: "quiet w (snd (member_detail E m w))"
  unfolding member_detail_world
  by (simp add: quiet_refl quiet_get_github_user_info split: sum.splits option.splits)

lemma quiet_member_details: "quiet w (snd (member_details E ms acc w))"
proof (induction ms arbitrary: acc w)
  case Nil
  then show ?case by (simp add: quiet_refl)
next
  case (Cons m ms)
  obtain r w1 where d: "member_detail E m w = (r, w1)"
    by (cases "member_detail E m w")
  then have q: "quiet w w1"
    using quiet_member_detail [of w E m] by simp
  show ?case
  proof (cases r)
    case (Inl e)
    then show ?thesis using d q by simp
  next
    case (Inr x)
    then show ?thesis
      using d q Cons.IH [of w1 "acc @ [x]"] quiet_trans by auto
  qed
qed

lemma get_organization_members_world:
  "snd (get_organization_members E org_id token w) =
     (let w1 = w\<lparr>sent := sent w @ [MembersGet org_id token]\<rparr> in
      case http E (length (sent w)) (MembersGet org_id token) of
        ConnectionError \<Rightarrow> print_log (MembersError RequestException) w1
      | Reply st body \<Rightarrow>
          if st = 200 then
            (case body of
               None \<Rightarrow> print_log (MembersError JSONDecodeError) w1
             | Some members \<Rightarrow>
                 (case iter members of
                    Inl e \<Rightarrow> print_log (MembersError e) w1
                  | Inr ms \<Rightarrow>
                      (case fst (member_details E ms [] w1) of
                         Inl e \<Rightarrow> print_log (MembersError e) (snd (member_details E ms [] w1))
                       | Inr ds \<Rightarrow> snd (member_details E ms [] w1))))
          else print_log (MembersStatus st) w1)"
  by (simp add: get_organization_members_def request_op_def Let_def
      split: response.splits option.splits sum.splits prod.splits)

lemma quiet_get_organization_members:
  "quiet w (snd (get_organization_members E org_id token w))"
proof -
  let ?w1 = "w\<lparr>sent := sent w @ [MembersGet org_id token]\<rparr>"
  have q1: "quiet w ?w1"
    by (simp add: quiet_def notifications_def)
  have q2: "quiet w (print_log l ?w1)" for l
    using q1 quiet_print_log quiet_trans by blast
  have q3: "quiet w (snd (member_details E ms [] ?w1))" for ms
    using q1 quiet_member_details quiet_trans by blast
  have q4: "quiet w (print_log l (snd (member_details E ms [] ?w1)))" for ms l
    using q3 quiet_print_log quiet_trans by blast
  show ?thesis
    unfolding get_organization_members_world Let_def
    by (simp add: q2 q3 q4 split: response.splits option.splits sum.splits)
qed

lemma quiet_format_slack_message: "quiet w (snd (format_slack_message E org members w))"
  by (simp add: format_slack_message_def now_timestamp_def quiet_def notifications_def Let_def
      split: sum.splits)

lemma send_slack_message_frame:
  "previous_orgs_file (send_slack_message E message w) = previous_orgs_file w
   \<and> slept (send_slack_message E message w) = slept w"
  by (simp add: send_slack_message_def request_op_def print_log_def
      split: option.splits response.splits)

lemma send_slack_message_configured:
  assumes "SLACK_WEBHOOK_URL E = Some url" and "url \<noteq> []"
  shows "sent (send_slack_message E message w) = sent w @ [SlackPost url message]"
  using assms
  by (simp add: send_slack_message_def request_op_def print_log_def split: response.splits)

section \<open>Substrings of a joined message\<close>

lemma starts_with_append: "starts_with p (p @ s)"
  by (induction p) simp_all

lemma str_contains_prefix: "starts_with p s \<Longrightarrow> str_contains p s"
  by (cases s; cases p) simp_all

lemma str_contains_append: "str_contains p (a @ p @ b)"
proof (induction a)
  case Nil
  then show ?case by (simp add: str_contains_prefix starts_with_append)
next
  case (Cons c a)
  then show ?case by simp
qed

lemma join_decompose: "x \<in> set xs \<Longrightarrow> \<exists>a b. join sep xs = a @ x @ b"
proof (induction sep xs rule: join.induct)
  case (1 sep)
  then show ?case by simp
next
  case (2 sep y)
  then have "join sep [y] = [] @ x @ []" by simp
  then show ?case by blast
next
  case (3 sep y z zs)
  show ?case
  proof (cases "x = y")
    case True
    then have "join sep (y # z # zs) = [] @ x @ (sep @ join sep (z # zs))" by simp
    then show ?thesis by blast
  next
    case False
    with 3 obtain a b where "join sep (z # zs) = a @ x @ b" by auto
    then have "join sep (y # z # zs) = (y @ sep @ a) @ x @ b" by simp
    then show ?thesis by blast
  qed
qed

lemma str_contains_join:
  assumes "x \<in> set xs" and "x = a @ p @ b"
  shows "str_contains p (join sep xs)"
proof -
  from join_decompose [OF assms(1)] obtain c d where "join sep xs = c @ x @ d" by blast
  then have "join sep xs = (c @ a) @ p @ (b @ d)"
    using assms(2) by simp
  then show ?thesis
    by (simp only: str_contains_append)
qed

section \<open>Notifying one organization\<close>

lemma member_detail_is_dict: "member_detail E m w = (Inr d, w1) \<Longrightarrow> is_dict d"
  unfolding member_detail_def Let_def
  by (simp split: sum.splits option.splits prod.splits if_splits) auto

lemma member_details_are_dicts:
  "member_details E ms acc w = (Inr ds, w') \<Longrightarrow> \<forall>a\<in>set acc. is_dict a
     \<Longrightarrow> \<forall>d\<in>set ds. is_dict d"
proof (induction ms arbitrary: acc w)
  case Nil
  then show ?case by simp
next
  case (Cons m ms)
  obtain r w1 where d: "member_detail E m w = (r, w1)"
    by (cases "member_detail E m w")
  show ?case
  proof (cases r)
    case (Inl e)
    then show ?thesis using Cons.prems d by simp
  next
    case (Inr x)
    then have "is_dict x" using d member_detail_is_dict by blast
    moreover have "member_details E ms (acc @ [x]) w1 = (Inr ds, w')"
      using Cons.prems(1) d Inr by simp
    moreover have "\<forall>a\<in>set (acc @ [x]). is_dict a"
      using Cons.prems(2) \<open>is_dict x\<close> by simp
    ultimately show ?thesis
      using Cons.IH [of "acc @ [x]" w1] by blast
  qed
qed

lemma get_organization_members_are_dicts:
  "\<forall>d\<in>set (fst (get_organization_members E org_id token w)). is_dict d"
proof -
  let ?w1 = "w\<lparr>sent := sent w @ [MembersGet org_id token]\<rparr>"
  have "fst (get_organization_members E org_id token w) = []
      \<or> (\<exists>ms w2. member_details E ms [] ?w1
             = (Inr (fst (get_organization_members E org_id token w)), w2))"
    unfolding get_organization_members_def request_op_def
    by (simp split: response.splits option.splits sum.splits prod.splits) blast
  then show ?thesis
  proof
    assume "fst (get_organization_members E org_id token w) = []"
    then show ?thesis by simp
  next
    assume "\<exists>ms w2. member_details E ms [] ?w1
             = (Inr (fst (get_organization_members E org_id token w)), w2)"
    then obtain ms w2 where "member_details E ms [] ?w1
             = (Inr (fst (get_organization_members E org_id token w)), w2)" by blast
    from member_details_are_dicts [OF this] show ?thesis by simp
  qed
qed

lemma print_members_dicts: "\<forall>m\<in>set ms. is_dict m \<Longrightarrow> print_members ms = Inr ()"
proof (induction ms)
  case Nil
  then show ?case by simp
next
  case (Cons m ms)
  then obtain kv where "m = JObj kv" by (cases m) simp_all
  then show ?case using Cons by simp
qed

lemma print_organization_details_sends:
  assumes "getitem org ''id'' = Inr ident"
    and "getitem org ''name'' = Inr name"
    and "getitem org ''display_name'' = Inr display_name"
  shows "\<exists>token w1 members w2 lines.
       get_auth0_token E (snd (now_timestamp E w)) = (token, w1)
     \<and> get_organization_members E ident token w1 = (members, w2)
     \<and> quiet w w2
     \<and> (if members = [] then lines = [no_members]
         else map (member_line E) members = map Inr lines)
     \<and> print_organization_details E org w =
         (Inr (),
          send_slack_message E
            (join newline
               (message_head E name display_name ident (clock E (clock_reads w2)) @ lines))
            (w2\<lparr>clock_reads := Suc (clock_reads w2)\<rparr>))"
proof -
  let ?w0 = "snd (now_timestamp E w)"
  obtain token w1 where t: "get_auth0_token E ?w0 = (token, w1)"
    by (cases "get_auth0_token E ?w0")
  obtain members w2 where m: "get_organization_members E ident token w1 = (members, w2)"
    by (cases "get_organization_members E ident token w1")
  have "quiet w ?w0" by (rule quiet_now_timestamp)
  moreover have "quiet ?w0 w1"
    using quiet_get_auth0_token [of ?w0 E] t by simp
  moreover have "quiet w1 w2"
    using quiet_get_organization_members [of w1 E ident token] m by simp
  ultimately have q: "quiet w w2"
    using quiet_trans by blast
  have dicts: "\<forall>d\<in>set members. is_dict d"
    using get_organization_members_are_dicts [of E ident token w1] m by simp
  from format_slack_message_lines [OF assms(2) assms(3) assms(1) dicts, of E w2]
  obtain lines where f: "format_slack_message E org members w2 =
           (Inr (join newline
                  (message_head E name display_name ident (clock E (clock_reads w2)) @ lines)),
            w2\<lparr>clock_reads := Suc (clock_reads w2)\<rparr>)"
    and l: "if members = [] then lines = [no_members]
            else map (member_line E) members = map Inr lines"
    by blast
  have "print_organization_details E org w =
         (Inr (),
          send_slack_message E
            (join newline
               (message_head E name display_name ident (clock E (clock_reads w2)) @ lines))
            (w2\<lparr>clock_reads := Suc (clock_reads w2)\<rparr>))"
    using assms t m f print_members_dicts [OF dicts]
    by (simp add: print_organization_details_def now_timestamp_def)
  then show ?thesis
    using t m q l by blast
qed

text \<open>Lines 176 to 178 stand outside the \<^verbatim>\<open>try\<close>: an organization record without
  \<^verbatim>\<open>name\<close> makes \<open>print_organization_details\<close> raise, which ends the cycle.\<close>

lemma print_organization_details_needs_name:
  assumes "getitem org ''id'' = Inr ident" and "getitem org ''name'' = Inl e"
  shows "fst (print_organization_details E org w) = Inl e"
  using assms by (simp add: print_organization_details_def now_timestamp_def)




section \<open>The poll cycle\<close>

lemma poll_once_listing_error:
  assumes "fst (get_organizations E w) = Inl e"
  shows "poll_once E w = (Inl e, snd (get_organizations E w))"
  using assms by (cases "get_organizations E w") (simp add: poll_once_def)

lemma load_previous_orgs_quiet: "quiet w w' \<Longrightarrow> load_previous_orgs E w' = load_previous_orgs E w"
  by (simp add: quiet_def load_previous_orgs_def)

text \<open>The listing raises on a transport error, on a 4xx or 5xx status and on a body that
  is not JSON.\<close>

lemma get_organizations_raises:
  assumes "case http E (length (sent (snd (get_auth0_token E w))))
                  (OrganizationsGet (fst (get_auth0_token E w))) of
             ConnectionError \<Rightarrow> True
           | Reply st body \<Rightarrow> raises_for_status st \<or> body = None"
  shows "\<exists>e. fst (get_organizations E w) = Inl e"
  using assms
  by (cases "get_auth0_token E w")
     (auto simp: get_organizations_def request_op_def split: response.splits option.splits)

text \<open>
  Claim C2. If the organization listing raises during a poll cycle, the cycle leaves
  the snapshot file exactly as it was, sends no notification, and sleeps 5 minutes
  (300 s, where a successful cycle ends with a sleep of 60 s); the next iteration starts
  from the resulting state, in which \<open>load_previous_orgs\<close> returns the same baseline.
\<close>

theorem listing_failure_changes_nothing:
  assumes "fst (get_organizations E w) = Inl e"
  shows "previous_orgs_file (poll_cycle E w) = previous_orgs_file w
       \<and> notifications (poll_cycle E w) = notifications w
       \<and> slept (poll_cycle E w) = slept w @ [300]
       \<and> load_previous_orgs E (poll_cycle E w) = load_previous_orgs E w
       \<and> poll_organizations (Suc n) E w = poll_organizations n E (poll_cycle E w)
       \<and> (\<forall>w0 w1. poll_once E w0 = (Inr (), w1) \<longrightarrow> (\<exists>rest. slept (poll_cycle E w0) = rest @ [60]))"
proof -
  let ?w1 = "snd (get_organizations E w)"
  have c: "poll_cycle E w = sleep (5 * 60) (print_log (CycleError e) ?w1)"
    using poll_once_listing_error [OF assms] by (simp add: poll_cycle_def)
  have q: "quiet w ?w1"
    by (rule quiet_get_organizations)
  have disk: "previous_orgs_file (poll_cycle E w) = previous_orgs_file w"
    using q by (simp add: c sleep_def print_log_def quiet_def)
  have "notifications (poll_cycle E w) = notifications w"
    using q by (simp add: c sleep_def print_log_def quiet_def notifications_def)
  moreover have "slept (poll_cycle E w) = slept w @ [300]"
    using q by (simp add: c sleep_def print_log_def quiet_def)
  moreover have "load_previous_orgs E (poll_cycle E w) = load_previous_orgs E w"
    using disk by (simp add: load_previous_orgs_def)
  moreover have "\<exists>rest. slept (poll_cycle E w0) = rest @ [60]"
    if "poll_once E w0 = (Inr (), w1)" for w0 w1
  proof -
    have "\<exists>w2. w1 = sleep 60 w2"
      using that
      by (auto simp: poll_once_def split: prod.splits sum.splits if_splits)
    then show ?thesis
      using that by (auto simp: poll_cycle_def sleep_def)
  qed
  ultimately show ?thesis
    using disk by simp
qed

theorem listing_failure_changes_nothing_witness:
  "fst (get_organizations base_env snapshot_world) = Inl RequestException
   \<and> previous_orgs_file (poll_cycle base_env snapshot_world) = Some ''[A]''
   \<and> notifications (poll_cycle base_env snapshot_world) = []
   \<and> slept (poll_cycle base_env snapshot_world) = [300]
   \<and> load_previous_orgs base_env (poll_cycle base_env snapshot_world) = Inr (JArr [orgA])"
proof -
  have f: "fst (get_organizations base_env snapshot_world) = Inl RequestException"
    by (simp add: get_organizations_def get_auth0_token_def token_simps base_env_def
        snapshot_world_def world0_def)
  have l: "load_previous_orgs base_env snapshot_world = Inr (JArr [orgA])"
    by (simp add: load_previous_orgs_def base_env_def snapshot_world_def world0_def demo_loads_def)
  have "previous_orgs_file snapshot_world = Some ''[A]''"
    "notifications snapshot_world = []" "slept snapshot_world = []"
    by (simp_all add: snapshot_world_def world0_def notifications_def)
  then show ?thesis
    using listing_failure_changes_nothing [OF f, of 0] f l by simp
qed

lemma poll_once_success:
  assumes "get_organizations E w = (Inr current_orgs, w1)" and "poll_once E w = (Inr u, w')"
  shows "\<exists>w2. w' = sleep 60 (save_previous_orgs E current_orgs w2)"
  using assms
  by (auto simp: poll_once_def split: sum.splits prod.splits if_splits)

text \<open>
  Claim C4. After every successful poll cycle the snapshot file holds the
  serialisation of the full listing that the cycle fetched: it is overwritten, not
  merged. In particular, when the previous snapshot is one record with id \<^verbatim>\<open>A\<close>, the
  listing is a record with id \<^verbatim>\<open>A\<close> followed by a record \<open>b\<close> with id \<^verbatim>\<open>B\<close> (and the
  \<^verbatim>\<open>name\<close> and \<^verbatim>\<open>display_name\<close> every organization has), the new organizations are
  exactly \<open>[b]\<close>, the cycle hands \<open>send_slack_message\<close> one message, whose text contains
  \<^verbatim>\<open>B\<close> and which is posted as the only notification of the cycle when a webhook is
  configured, the file then holds the listing of both records, and the cycle ends with
  the sleep of 60 s.
\<close>

theorem successful_cycle_overwrites_snapshot:
  "(\<forall>current_orgs w1 w'.
      get_organizations E w = (Inr current_orgs, w1) \<and> poll_once E w = (Inr (), w') \<longrightarrow>
      poll_cycle E w = w' \<and> previous_orgs_file w' = Some (json_dumps E current_orgs))
   \<and> (\<forall>a0 a b w1 name display_name.
        load_previous_orgs E w = Inr (JArr [a0]) \<and> id_key a0 = Inr (KStr ''A'')
      \<and> get_organizations E w = (Inr (JArr [a, b]), w1) \<and> id_key a = Inr (KStr ''A'')
      \<and> getitem b ''id'' = Inr (JStr ''B'')
      \<and> getitem b ''name'' = Inr name \<and> getitem b ''display_name'' = Inr display_name \<longrightarrow>
        find_new_organizations (JArr [a, b]) (JArr [a0]) = Inr [b]
      \<and> (\<exists>message w3.
            poll_cycle E w =
              sleep 60 (save_previous_orgs E (JArr [a, b]) (send_slack_message E message w3))
          \<and> quiet w w3
          \<and> str_contains ''B'' message
          \<and> (\<forall>url. SLACK_WEBHOOK_URL E = Some url \<and> url \<noteq> [] \<longrightarrow>
                notifications (poll_cycle E w) = notifications w @ [SlackPost url message]))
      \<and> previous_orgs_file (poll_cycle E w) = Some (json_dumps E (JArr [a, b]))
      \<and> slept (poll_cycle E w) = slept w @ [60])"
proof (intro conjI allI impI)
  fix current_orgs :: json and w1 w' :: world
  assume h: "get_organizations E w = (Inr current_orgs, w1) \<and> poll_once E w = (Inr (), w')"
  then obtain w2 where "w' = sleep 60 (save_previous_orgs E current_orgs w2)"
    using poll_once_success by blast
  then show "previous_orgs_file w' = Some (json_dumps E current_orgs)"
    by (simp add: sleep_def save_previous_orgs_def)
  show "poll_cycle E w = w'"
    using h by (simp add: poll_cycle_def)
next
  fix a0 a b :: json and w1 :: world and name display_name :: json
  assume h: "load_previous_orgs E w = Inr (JArr [a0]) \<and> id_key a0 = Inr (KStr ''A'')
      \<and> get_organizations E w = (Inr (JArr [a, b]), w1) \<and> id_key a = Inr (KStr ''A'')
      \<and> getitem b ''id'' = Inr (JStr ''B'')
      \<and> getitem b ''name'' = Inr name \<and> getitem b ''display_name'' = Inr display_name"
  have q1: "quiet w w1"
    using quiet_get_organizations [of w E] h by simp
  then have load: "load_previous_orgs E w1 = Inr (JArr [a0])"
    using h by (simp add: load_previous_orgs_quiet)
  have kb: "id_key b = Inr (KStr ''B'')"
    using h by (simp add: id_key_def)
  have new: "find_new_organizations (JArr [a, b]) (JArr [a0]) = Inr [b]"
    using h kb by (simp add: find_new_organizations_def)
  from h have fields: "getitem b ''id'' = Inr (JStr ''B'')" "getitem b ''name'' = Inr name"
    "getitem b ''display_name'' = Inr display_name"
    by simp_all
  from print_organization_details_sends [OF fields, of E w1]
  obtain token w1a members w2 lines where
        q2: "quiet w1 w2"
    and p: "print_organization_details E b w1 =
         (Inr (),
          send_slack_message E
            (join newline
               (message_head E name display_name (JStr ''B'') (clock E (clock_reads w2)) @ lines))
            (w2\<lparr>clock_reads := Suc (clock_reads w2)\<rparr>))"
    by blast
  let ?message = "join newline
               (message_head E name display_name (JStr ''B'') (clock E (clock_reads w2)) @ lines)"
  let ?w3 = "w2\<lparr>clock_reads := Suc (clock_reads w2)\<rparr>"
  let ?w4 = "send_slack_message E ?message ?w3"
  have q3: "quiet w ?w3"
    using q1 q2 quiet_clock_reads quiet_trans by blast
  have once: "poll_once E w = (Inr (), sleep 60 (save_previous_orgs E (JArr [a, b]) ?w4))"
    using h load new p by (simp add: poll_once_def)
  then have cycle: "poll_cycle E w = sleep 60 (save_previous_orgs E (JArr [a, b]) ?w4)"
    by (simp add: poll_cycle_def)
  have n: "notifications (poll_cycle E w) = notifications w @ [SlackPost url ?message]"
    if "SLACK_WEBHOOK_URL E = Some url \<and> url \<noteq> []" for url
  proof -
    have sent4: "sent ?w4 = sent ?w3 @ [SlackPost url ?message]"
      using that by (intro send_slack_message_configured) simp_all
    have "notifications (poll_cycle E w) = notifications ?w3 @ [SlackPost url ?message]"
      by (simp add: cycle sleep_def save_previous_orgs_def notifications_def sent4)
    then show ?thesis
      using q3 by (simp add: quiet_def)
  qed
  have c: "str_contains ''B'' ?message"
    by (rule str_contains_join [where x = "''*ID:* '' @ fmt E (JStr ''B'')"
          and a = "''*ID:* ''" and b = "[]"])
       (simp_all add: message_head_def fmt_def)
  show "find_new_organizations (JArr [a, b]) (JArr [a0]) = Inr [b]"
    by (rule new)
  show "\<exists>message w3.
            poll_cycle E w =
              sleep 60 (save_previous_orgs E (JArr [a, b]) (send_slack_message E message w3))
          \<and> quiet w w3
          \<and> str_contains ''B'' message
          \<and> (\<forall>url. SLACK_WEBHOOK_URL E = Some url \<and> url \<noteq> [] \<longrightarrow>
                notifications (poll_cycle E w) = notifications w @ [SlackPost url message])"
    using cycle q3 c n by blast
  show "previous_orgs_file (poll_cycle E w) = Some (json_dumps E (JArr [a, b]))"
    by (simp add: cycle sleep_def save_previous_orgs_def)
  show "slept (poll_cycle E w) = slept w @ [60]"
    using q3 send_slack_message_frame [of E ?message ?w3]
    by (simp add: cycle sleep_def save_previous_orgs_def quiet_def)
qed

theorem successful_cycle_overwrites_snapshot_witness:
  "load_previous_orgs healthy_env snapshot_world = Inr (JArr [orgA])
   \<and> fst (get_organizations healthy_env snapshot_world) = Inr (JArr [orgA, orgB])
   \<and> find_new_organizations (JArr [orgA, orgB]) (JArr [orgA]) = Inr [orgB]
   \<and> (\<exists>message. notifications (poll_cycle healthy_env snapshot_world)
                   = [SlackPost ''https://hooks.example/T'' message]
                \<and> str_contains ''B'' message)
   \<and> previous_orgs_file (poll_cycle healthy_env snapshot_world) = Some ''[A, B]''
   \<and> slept (poll_cycle healthy_env snapshot_world) = [60]"
proof -
  let ?E = healthy_env and ?w = snapshot_world
  have g: "get_organizations ?E ?w = (Inr (JArr [orgA, orgB]), snd (get_organizations ?E ?w))"
    by (simp add: get_organizations_def get_auth0_token_def token_simps raises_for_status_def
        healthy_env_def base_env_def snapshot_world_def world0_def token_body_def)
  have l: "load_previous_orgs ?E ?w = Inr (JArr [orgA])"
    by (simp add: load_previous_orgs_def healthy_env_def base_env_def snapshot_world_def
        world0_def demo_loads_def)
  have k: "id_key orgA = Inr (KStr ''A'')" "getitem orgB ''id'' = Inr (JStr ''B'')"
    "getitem orgB ''name'' = Inr (JStr ''bolt'')"
    "getitem orgB ''display_name'' = Inr (JStr ''Bolt'')"
    by (simp_all add: id_key_def orgA_def orgB_def)
  have u: "SLACK_WEBHOOK_URL ?E = Some ''https://hooks.example/T''"
    by (simp add: healthy_env_def base_env_def)
  have d: "json_dumps ?E (JArr [orgA, orgB]) = ''[A, B]''"
    by (simp add: healthy_env_def base_env_def demo_dumps_def orgA_def orgB_def)
  have s: "notifications ?w = []" "slept ?w = []"
    by (simp_all add: notifications_def snapshot_world_def world0_def)
  from successful_cycle_overwrites_snapshot [of ?E ?w] g l k
  have "find_new_organizations (JArr [orgA, orgB]) (JArr [orgA]) = Inr [orgB]
      \<and> (\<exists>message w3. str_contains ''B'' message
            \<and> (\<forall>url. SLACK_WEBHOOK_URL ?E = Some url \<and> url \<noteq> [] \<longrightarrow>
                  notifications (poll_cycle ?E ?w) = notifications ?w @ [SlackPost url message]))
      \<and> previous_orgs_file (poll_cycle ?E ?w) = Some (json_dumps ?E (JArr [orgA, orgB]))
      \<and> slept (poll_cycle ?E ?w) = slept ?w @ [60]"
    by blast
  then have "find_new_organizations (JArr [orgA, orgB]) (JArr [orgA]) = Inr [orgB]
      \<and> (\<exists>message. notifications (poll_cycle ?E ?w)
              = notifications ?w @ [SlackPost ''https://hooks.example/T'' message]
            \<and> str_contains ''B'' message)
      \<and> previous_orgs_file (poll_cycle ?E ?w) = Some (json_dumps ?E (JArr [orgA, orgB]))
      \<and> slept (poll_cycle ?E ?w) = slept ?w @ [60]"
    using u by auto
  moreover have "fst (get_organizations ?E ?w) = Inr (JArr [orgA, orgB])"
    using g by (metis fst_conv)
  ultimately show ?thesis
    using l by (simp add: d s)
qed

section \<open>Enriching the members\<close>

lemma profile_url_failed: "lookup_failed r \<Longrightarrow> profile_url r = JNull"
  by (cases r) (auto simp: profile_url_def split: option.splits)

lemma lookup_id_no_marker:
  "dict_get m ''user_id'' (JStr []) = Inr (JStr s) \<Longrightarrow> \<not> str_contains ''github'' s
     \<Longrightarrow> lookup_id m = None"
  by (simp add: lookup_id_def)

lemma github_info_url:
  assumes "well_shaped (http E (length (sent w)) (GithubUserGet g))"
  shows "(let info = fst (get_github_user_info E g w)
          in if truthy info then dict_get info ''html_url'' JNull else Inr JNull)
         = Inr (profile_url (http E (length (sent w)) (GithubUserGet g)))"
proof (cases "http E (length (sent w)) (GithubUserGet g)")
  case ConnectionError
  then show ?thesis
    by (simp add: get_github_user_info_def request_op_def profile_url_def)
next
  case (Reply st body)
  show ?thesis
  proof (cases body)
    case None
    then show ?thesis
      using Reply by (simp add: get_github_user_info_def request_op_def profile_url_def)
  next
    case (Some v)
    show ?thesis
    proof (cases "st = 200 \<and> truthy v")
      case True
      then obtain kv where "v = JObj kv"
        using assms Reply Some by (cases v) simp_all
      then show ?thesis
        using Reply Some True
        by (simp add: get_github_user_info_def request_op_def profile_url_def field_def)
    next
      case False
      then show ?thesis
        using Reply Some
        by (auto simp: get_github_user_info_def request_op_def profile_url_def)
    qed
  qed
qed

lemma get_github_user_info_sent:
  "sent (snd (get_github_user_info E g w)) = sent w @ [GithubUserGet g]"
  by (simp add: get_github_user_info_def request_op_def print_log_def
      split: response.splits option.splits)

lemma member_detail_enriched:
  assumes "well_formed_member m"
    and "\<forall>g. well_shaped (http E (length (sent w)) (GithubUserGet g))"
  shows "fst (member_detail E m w) = Inr (enriched E (length (sent w)) m)
       \<and> length (sent (snd (member_detail E m w)))
           = (case lookup_id m of None \<Rightarrow> length (sent w) | Some g \<Rightarrow> Suc (length (sent w)))"
proof -
  from assms(1) obtain kv where m: "m = JObj kv"
    by (cases m) simp_all
  show ?thesis
  proof (cases "lookup_id m")
    case None
    then have "github_id_of (case map_of kv ''user_id'' of None \<Rightarrow> JStr [] | Some v \<Rightarrow> v)
                 = Inr None
             \<or> github_id_of (case map_of kv ''user_id'' of None \<Rightarrow> JStr [] | Some v \<Rightarrow> v)
                 = Inr (Some [])"
      using assms(1) unfolding m
      by (auto simp: lookup_id_def github_id_of_def split: option.splits json.splits if_splits)
    then show ?thesis
      using None unfolding m
      by (auto simp: member_detail_def enriched_def)
  next
    case (Some g)
    then have gid: "github_id_of (case map_of kv ''user_id'' of None \<Rightarrow> JStr [] | Some v \<Rightarrow> v)
                 = Inr (Some g)" and g: "g \<noteq> []"
      using assms(1) unfolding m
      by (auto simp: lookup_id_def github_id_of_def split: option.splits json.splits if_splits)
    obtain info w1 where i: "get_github_user_info E g w = (info, w1)"
      by (cases "get_github_user_info E g w")
    have url: "(if truthy info then dict_get info ''html_url'' JNull else Inr JNull)
         = Inr (profile_url (http E (length (sent w)) (GithubUserGet g)))"
      using github_info_url [of E w g] assms(2) i by (simp add: Let_def)
    have s: "length (sent w1) = Suc (length (sent w))"
      using get_github_user_info_sent [of E g w] i by simp
    show ?thesis
      using Some gid g i url s unfolding m
      by (simp add: member_detail_def enriched_def)
  qed
qed

lemma member_details_enriched:
  assumes "\<forall>m\<in>set ms. well_formed_member m"
    and "\<forall>n g. well_shaped (http E n (GithubUserGet g))"
  shows "fst (member_details E ms acc w) = Inr (acc @ enrich_all E (length (sent w)) ms)"
  using assms(1)
proof (induction ms arbitrary: acc w)
  case Nil
  then show ?case by simp
next
  case (Cons m ms)
  obtain r w1 where d: "member_detail E m w = (r, w1)"
    by (cases "member_detail E m w")
  from member_detail_enriched [of m E w] Cons.prems assms(2) d
  have r: "r = Inr (enriched E (length (sent w)) m)"
    and s: "length (sent w1)
           = (case lookup_id m of None \<Rightarrow> length (sent w) | Some g \<Rightarrow> Suc (length (sent w)))"
    by simp_all
  have "fst (member_details E ms (acc @ [enriched E (length (sent w)) m]) w1)
      = Inr ((acc @ [enriched E (length (sent w)) m]) @ enrich_all E (length (sent w1)) ms)"
    using Cons.IH Cons.prems by simp
  moreover have "length (sent w1) = (case lookup_id m of None \<Rightarrow> length (sent w) | Some g \<Rightarrow> Suc (length (sent w)))"
    by (rule s)
  ultimately show ?case
    using d r by (simp split: option.splits)
qed

lemma length_enrich_all: "length (enrich_all E n ms) = length ms"
  by (induction ms arbitrary: n) simp_all

lemma lookups_before_Cons:
  "lookups_before (m # ms) (Suc i) = (if lookup_id m = None then 0 else 1) + lookups_before ms i"
  by (simp add: lookups_before_def)

lemma enrich_all_nth:
  "i < length ms \<Longrightarrow> enrich_all E n ms ! i = enriched E (n + lookups_before ms i) (ms ! i)"
proof (induction ms arbitrary: n i)
  case Nil
  then show ?case by simp
next
  case (Cons m ms)
  show ?case
  proof (cases i)
    case 0
    then show ?thesis by (simp add: lookups_before_def)
  next
    case (Suc j)
    then have "j < length ms" using Cons.prems by simp
    from Cons.IH [OF this] show ?thesis
      using Suc by (auto simp: lookups_before_Cons split: option.splits)
  qed
qed

lemma get_organization_members_enriched:
  assumes "http E (length (sent w)) (MembersGet org_id token) = Reply 200 (Some (JArr members))"
    and "\<forall>m\<in>set members. well_formed_member m"
    and "\<forall>n g. well_shaped (http E n (GithubUserGet g))"
  shows "fst (get_organization_members E org_id token w)
           = enrich_all E (Suc (length (sent w))) members"
proof -
  let ?w1 = "w\<lparr>sent := sent w @ [MembersGet org_id token]\<rparr>"
  have "fst (member_details E members [] ?w1) = Inr ([] @ enrich_all E (length (sent ?w1)) members)"
    by (rule member_details_enriched [OF assms(2) assms(3)])
  then show ?thesis
    using assms(1)
    by (auto simp: get_organization_members_def request_op_def split: prod.splits)
qed

lemma print_organization_details_returns:
  "has_fields org \<Longrightarrow> fst (print_organization_details E org w) = Inr ()"
proof -
  assume "has_fields org"
  then obtain ident name display_name where
    "getitem org ''id'' = Inr ident" "getitem org ''name'' = Inr name"
    "getitem org ''display_name'' = Inr display_name"
    by (auto simp: has_fields_def split: sum.splits)
  from print_organization_details_sends [OF this, of E w] show ?thesis
    by auto
qed

text \<open>
  The failures that are isolated. Let the member listing of an organization answer
  200 with a list of well-formed members, and let every reply of the profile endpoint
  have the shape of its interface. Then \<open>get_organization_members\<close> returns one record
  per member, in order; the record of a member carries that member's own name and
  email and the profile URL of the reply to that member's own lookup. The URL is null
  when the account reference lacks the marker \<^verbatim>\<open>github\<close> (no lookup is made) and when
  the member's lookup fails by a transport error, a status other than 200 or a body
  that is not JSON: such a failure changes no other record.
\<close>

lemma well_shaped_lookups_are_isolated:
  assumes "http E (length (sent w)) (MembersGet org_id token) = Reply 200 (Some (JArr members))"
    and "\<forall>m\<in>set members. well_formed_member m"
    and "\<forall>n g. well_shaped (http E n (GithubUserGet g))"
  shows "length (fst (get_organization_members E org_id token w)) = length members
       \<and> (\<forall>i<length members.
             getitem (fst (get_organization_members E org_id token w) ! i) ''name''
               = dict_get (members ! i) ''name'' (JStr ''Unknown'')
           \<and> getitem (fst (get_organization_members E org_id token w) ! i) ''email''
               = dict_get (members ! i) ''email'' (JStr ''No email'')
           \<and> getitem (fst (get_organization_members E org_id token w) ! i) ''github_url''
               = Inr (case lookup_id (members ! i) of
                        None \<Rightarrow> JNull
                      | Some g \<Rightarrow>
                          profile_url (http E (Suc (length (sent w)) + lookups_before members i)
                                         (GithubUserGet g)))
           \<and> (\<forall>s. dict_get (members ! i) ''user_id'' (JStr []) = Inr (JStr s)
                   \<and> \<not> str_contains ''github'' s \<longrightarrow>
                 getitem (fst (get_organization_members E org_id token w) ! i) ''github_url''
                   = Inr JNull)
           \<and> (\<forall>g. lookup_id (members ! i) = Some g
                   \<and> lookup_failed (http E (Suc (length (sent w)) + lookups_before members i)
                                      (GithubUserGet g)) \<longrightarrow>
                 getitem (fst (get_organization_members E org_id token w) ! i) ''github_url''
                   = Inr JNull))
       \<and> (\<forall>org w0. has_fields org \<longrightarrow> fst (print_organization_details E org w0) = Inr ())"
proof (intro conjI allI impI)
  have r: "fst (get_organization_members E org_id token w)
           = enrich_all E (Suc (length (sent w))) members"
    by (rule get_organization_members_enriched [OF assms])
  show "length (fst (get_organization_members E org_id token w)) = length members"
    by (simp add: r length_enrich_all)
  fix i
  assume i: "i < length members"
  let ?d = "fst (get_organization_members E org_id token w) ! i"
  let ?n = "Suc (length (sent w)) + lookups_before members i"
  have d: "?d = enriched E ?n (members ! i)"
    using i by (simp add: r enrich_all_nth)
  from assms(2) i obtain kv where kv: "members ! i = JObj kv"
    by (cases "members ! i") (auto simp: all_set_conv_all_nth)
  show "getitem ?d ''name'' = dict_get (members ! i) ''name'' (JStr ''Unknown'')"
    by (simp add: d enriched_def kv)
  show "getitem ?d ''email'' = dict_get (members ! i) ''email'' (JStr ''No email'')"
    by (simp add: d enriched_def kv)
  show u: "getitem ?d ''github_url''
               = Inr (case lookup_id (members ! i) of
                        None \<Rightarrow> JNull
                      | Some g \<Rightarrow> profile_url (http E ?n (GithubUserGet g)))"
    by (simp add: d enriched_def split: option.splits)
  show "getitem ?d ''github_url'' = Inr JNull"
    if "dict_get (members ! i) ''user_id'' (JStr []) = Inr (JStr s)
          \<and> \<not> str_contains ''github'' s" for s
    using that u by (simp add: lookup_id_no_marker)
  show "getitem ?d ''github_url'' = Inr JNull"
    if "lookup_id (members ! i) = Some g \<and> lookup_failed (http E ?n (GithubUserGet g))" for g
    using that u by (simp add: profile_url_failed)
next
  fix org :: json and w0 :: world
  assume "has_fields org"
  then show "fst (print_organization_details E org w0) = Inr ()"
    by (rule print_organization_details_returns)
qed

lemma well_shaped_lookups_are_isolated_example:
  "lookup_failed (http lookup_env 1 (GithubUserGet ''583231''))
   \<and> fst (get_organization_members lookup_env (JStr ''B'') (JStr ''tok1'') world0) =
      [JObj [(''name'', JStr ''Octo''), (''email'', JStr ''octo@example.com''),
             (''github_url'', JNull)],
       JObj [(''name'', JStr ''Mona''), (''email'', JStr ''mona@example.com''),
             (''github_url'', JStr ''https://github.com/mona'')],
       JObj [(''name'', JStr ''Plain''), (''email'', JStr ''No email''),
             (''github_url'', JNull)]]"
proof -
  have a: "http lookup_env (length (sent world0)) (MembersGet (JStr ''B'') (JStr ''tok1''))
           = Reply 200 (Some (JArr [octo, mona, plain]))"
    by (simp add: lookup_env_def base_env_def)
  have b: "\<forall>m\<in>set [octo, mona, plain]. well_formed_member m"
    by (simp add: octo_def mona_def plain_def)
  have c: "\<forall>n g. well_shaped (http lookup_env n (GithubUserGet g))"
    by (simp add: lookup_env_def base_env_def)
  from well_shaped_lookups_are_isolated [OF a b c]
  have "length (fst (get_organization_members lookup_env (JStr ''B'') (JStr ''tok1'') world0))
          = length [octo, mona, plain]"
    by blast
  then show ?thesis
    by (simp add: get_organization_members_def member_detail_def github_id_of_def
        get_github_user_info_def request_op_def print_log_def lookup_env_def base_env_def
        octo_def mona_def plain_def world0_def)
qed

text \<open>
  Claim C8. A member without the marker, or whose profile lookup fails, should get a
  null profile URL while every other member is still enriched. Two listings of three
  members show where the code does not do so. In the first the lookup of the first
  member answers 200 with a JSON list: line 136 calls \<^verbatim>\<open>get\<close> on the list, the
  AttributeError leaves the loop and line 145 returns the empty list, so the second
  member, whose own lookup succeeds, and the third, who needs none, are dropped. In the
  second the \<^verbatim>\<open>user_id\<close> of the second member is null: line 126 raises a TypeError and
  again nobody is returned, not even the first member, who only lacks the marker. With
  the same three members and a first lookup that answers 404 all three records are
  returned.
\<close>

theorem get_organization_members_drops_all_members:
  "get_organization_members junk_lookup_env (JStr ''B'') (JStr ''tok1'') world0 =
     ([], world0\<lparr>sent := [MembersGet (JStr ''B'') (JStr ''tok1''), GithubUserGet ''583231''],
                  printed := [MembersError AttributeError]\<rparr>)
   \<and> get_organization_members null_uid_env (JStr ''B'') (JStr ''tok1'') world0 =
     ([], world0\<lparr>sent := [MembersGet (JStr ''B'') (JStr ''tok1'')],
                  printed := [MembersError TypeError]\<rparr>)
   \<and> fst (get_organization_members lookup_env (JStr ''B'') (JStr ''tok1'') world0) =
      [JObj [(''name'', JStr ''Octo''), (''email'', JStr ''octo@example.com''),
             (''github_url'', JNull)],
       JObj [(''name'', JStr ''Mona''), (''email'', JStr ''mona@example.com''),
             (''github_url'', JStr ''https://github.com/mona'')],
       JObj [(''name'', JStr ''Plain''), (''email'', JStr ''No email''),
             (''github_url'', JNull)]]"
  by (simp add: get_organization_members_def member_detail_def github_id_of_def
      get_github_user_info_def request_op_def print_log_def junk_lookup_env_def
      null_uid_env_def lookup_env_def base_env_def octo_def mona_def plain_def null_uid_def
      world0_def)

end
